theory Spec2Isabelle
  imports Main "HOL-Library.Sublist" "HOL-Library.Char_ord" "HOL-Library.List_Lexorder"
    "HOL-Library.Multiset"
begin

section \<open>Python values and records\<close>

text \<open>
  The generator works on dictionaries produced by \<^verbatim>\<open>DataFrame.to_dict('records')\<close>.
  A cell is a string, an integer, a boolean or NaN (what pandas reads for an empty cell);
  \<open>VNone\<close> is what \<^verbatim>\<open>dict.get(key)\<close> yields for an absent key. Finite non-integral
  floats are not part of the model. Strings are byte lists (UTF-8).
\<close>

datatype pyval = VStr string | VInt int | VBool bool | VNaN | VNone

text \<open>An exception: its class name and the text of \<^verbatim>\<open>str(e)\<close>.\<close>

datatype exc = Exc string string

fun exc_msg :: "exc \<Rightarrow> string" where
  "exc_msg (Exc c m) = m"

fun exc_class :: "exc \<Rightarrow> string" where
  "exc_class (Exc c m) = c"

text \<open>A dictionary, in insertion order.\<close>

type_synonym row = "(string \<times> pyval) list"

definition get :: "row \<Rightarrow> string \<Rightarrow> pyval" where
  "get r k = (case map_of r k of None \<Rightarrow> VNone | Some v \<Rightarrow> v)"

definition get_or :: "row \<Rightarrow> string \<Rightarrow> pyval \<Rightarrow> pyval" where
  "get_or r k d = (case map_of r k of None \<Rightarrow> d | Some v \<Rightarrow> v)"

fun type_name :: "pyval \<Rightarrow> string" where
  "type_name (VStr s) = ''str''"
| "type_name (VInt n) = ''int''"
| "type_name (VBool b) = ''bool''"
| "type_name VNaN = ''float''"
| "type_name VNone = ''NoneType''"

text \<open>A name in single quotes, as Python's messages print it.\<close>

definition quoted :: "string \<Rightarrow> string" where
  "quoted s = [CHR 0x27] @ s @ [CHR 0x27]"

subsection \<open>Decimal text of integers\<close>

definition digit_char :: "nat \<Rightarrow> char" where
  "digit_char d = ''0123456789'' ! (d mod 10)"

fun show_nat :: "nat \<Rightarrow> string" where
  "show_nat n = (if n < 10 then [digit_char n] else show_nat (n div 10) @ [digit_char n])"

declare show_nat.simps [simp del]

definition show_int :: "int \<Rightarrow> string" where
  "show_int i = (if i < 0 then ''-'' @ show_nat (nat (- i)) else show_nat (nat i))"

text \<open>The format specification \<^verbatim>\<open>:,\<close>: a comma before every group of three digits,
  counted from the right. \<open>group3\<close> works on the reversed digits.\<close>

fun group3 :: "string \<Rightarrow> string" where
  "group3 (a # b # c # d # rest) = a # b # c # CHR '','' # group3 (d # rest)"
| "group3 ds = ds"

definition show_int_grouped :: "int \<Rightarrow> string" where
  "show_int_grouped i =
     (if i < 0 then ''-'' @ rev (group3 (rev (show_nat (nat (- i)))))
      else rev (group3 (rev (show_nat (nat i)))))"

text \<open>\<^verbatim>\<open>str(v)\<close>, as an f-string field without a format specification prints it.\<close>

fun py_str :: "pyval \<Rightarrow> string" where
  "py_str (VStr s) = s"
| "py_str (VInt n) = show_int n"
| "py_str (VBool b) = (if b then ''True'' else ''False'')"
| "py_str VNaN = ''nan''"
| "py_str VNone = ''None''"

text \<open>\<^verbatim>\<open>format(v, ',')\<close>: numbers are grouped, a string raises ValueError, None raises
  TypeError.\<close>

fun fmt_comma :: "pyval \<Rightarrow> exc + string" where
  "fmt_comma (VInt n) = Inr (show_int_grouped n)"
| "fmt_comma (VBool b) = Inr (if b then ''1'' else ''0'')"
| "fmt_comma VNaN = Inr ''nan''"
| "fmt_comma (VStr s) = Inl (Exc ''ValueError'' (''Cannot specify '' @ quoted '','' @ '' with '' @ quoted ''s'' @ ''.''))"
| "fmt_comma VNone =
     Inl (Exc ''TypeError'' ''unsupported format string passed to NoneType.__format__'')"

subsection \<open>String operations\<close>

text \<open>\<^verbatim>\<open>a in b\<close>: substring test on two strings; TypeError otherwise.\<close>

fun py_in :: "pyval \<Rightarrow> pyval \<Rightarrow> exc + bool" where
  "py_in (VStr s) (VStr t) = Inr (sublist s t)"
| "py_in v (VStr t) =
     Inl (Exc ''TypeError''
       (quoted ''in <string>'' @ '' requires string as left operand, not '' @ type_name v))"
| "py_in v u =
     Inl (Exc ''TypeError'' (''argument of type '' @ quoted (type_name u) @ '' is not iterable''))"

text \<open>\<^verbatim>\<open>v.lower()\<close> and \<^verbatim>\<open>v.replace(' ', '_')\<close> exist on strings only. What
  \<^verbatim>\<open>str.lower\<close> does to a string follows the Unicode tables; it is the parameter
  \<open>lower\<close>, which the environment supplies.\<close>

fun py_lower :: "(string \<Rightarrow> string) \<Rightarrow> pyval \<Rightarrow> exc + string" where
  "py_lower lower (VStr s) = Inr (lower s)"
| "py_lower lower v =
     Inl (Exc ''AttributeError'' (quoted (type_name v) @ '' object has no attribute '' @ quoted ''lower''))"

definition replace_spaces :: "string \<Rightarrow> string" where
  "replace_spaces s = map (\<lambda>c. if c = CHR '' '' then CHR ''_'' else c) s"

fun py_replace_spaces :: "pyval \<Rightarrow> exc + string" where
  "py_replace_spaces (VStr s) = Inr (replace_spaces s)"
| "py_replace_spaces v =
     Inl (Exc ''AttributeError'' (quoted (type_name v) @ '' object has no attribute '' @ quoted ''replace''))"

subsection \<open>Arithmetic on cells\<close>

text \<open>\<^verbatim>\<open>a + b\<close> as \<^verbatim>\<open>sum\<close> uses it: booleans count as 0 and 1, NaN absorbs numbers,
  a string or None operand raises TypeError.\<close>

fun is_num :: "pyval \<Rightarrow> bool" where
  "is_num (VInt n) = True"
| "is_num (VBool b) = True"
| "is_num v = False"

fun num_of :: "pyval \<Rightarrow> int" where
  "num_of (VInt n) = n"
| "num_of (VBool b) = (if b then 1 else 0)"
| "num_of v = 0"

definition py_add :: "pyval \<Rightarrow> pyval \<Rightarrow> exc + pyval" where
  "py_add a b =
     (if is_num a \<and> is_num b then Inr (VInt (num_of a + num_of b))
      else if (is_num a \<or> a = VNaN) \<and> (is_num b \<or> b = VNaN) then Inr VNaN
      else Inl (Exc ''TypeError''
        (''unsupported operand type(s) for +: '' @ quoted (type_name a) @ '' and '' @
         quoted (type_name b))))"

text \<open>\<^verbatim>\<open>sum(values)\<close>: starts from the integer 0 and adds from left to right.\<close>

fun py_sum_from :: "pyval \<Rightarrow> pyval list \<Rightarrow> exc + pyval" where
  "py_sum_from acc [] = Inr acc"
| "py_sum_from acc (v # vs) =
     (case py_add acc v of Inl e \<Rightarrow> Inl e | Inr acc' \<Rightarrow> py_sum_from acc' vs)"

definition py_sum :: "pyval list \<Rightarrow> exc + pyval" where
  "py_sum vs = py_sum_from (VInt 0) vs"

text \<open>\<^verbatim>\<open>a // n\<close> for the result of a sum and a length: floor division, ZeroDivisionError
  when the divisor is 0.\<close>

definition py_floordiv :: "pyval \<Rightarrow> int \<Rightarrow> exc + pyval" where
  "py_floordiv a n =
     (if is_num a then
        (if n = 0 then Inl (Exc ''ZeroDivisionError'' ''integer division or modulo by zero'')
         else Inr (VInt (num_of a div n)))
      else if a = VNaN then
        (if n = 0 then Inl (Exc ''ZeroDivisionError'' ''float floor division by zero'')
         else Inr VNaN)
      else Inl (Exc ''TypeError''
        (''unsupported operand type(s) for //: '' @ quoted (type_name a) @ '' and '' @
         quoted ''int'')))"

section \<open>Environment and state\<close>

text \<open>
  A data frame as \<^verbatim>\<open>pd.read_csv\<close> returns it: the column names and the rows of cells.
\<close>

record dataframe =
  columns :: "string list"
  cells :: "pyval list list"

text \<open>
  What the program reads from outside and never changes: the two CSV files as pandas
  parses them (or the exception it raises), the output directory, which paths
  \<^verbatim>\<open>open\<close> can open for writing, the answer of the messages API to the k-th request,
  the clock: the reading of the k-th call of \<^verbatim>\<open>datetime.now()\<close> and the texts
  Python prints for readings and for the seconds between two readings, and the case
  mappings \<^verbatim>\<open>str.lower\<close> and \<^verbatim>\<open>str.title\<close> of Python's strings.
\<close>

record env =
  read_prospects :: "exc + dataframe"
  read_market :: "exc + dataframe"
  output_dir :: string
  writable :: "string \<Rightarrow> bool"
  api :: "nat \<Rightarrow> string \<Rightarrow> exc + string list"
  clk :: "nat \<Rightarrow> nat"
  strftime :: "string \<Rightarrow> nat \<Rightarrow> string"
  isoformat :: "nat \<Rightarrow> string"
  total_seconds :: "nat \<Rightarrow> nat \<Rightarrow> string"
  total_seconds_2f :: "nat \<Rightarrow> nat \<Rightarrow> string"
  str_lower :: "string \<Rightarrow> string"
  str_title :: "string \<Rightarrow> string"

datatype level = INFO | ERROR

text \<open>What the program changes: the files (path to content), the log, and how many
  clock readings and API requests have been made.\<close>

record world =
  fs :: "string \<rightharpoonup> string"
  log :: "(level \<times> string) list"
  ticks :: nat
  api_calls :: nat

definition log_info :: "string \<Rightarrow> world \<Rightarrow> world" where
  "log_info m w = w\<lparr>log := log w @ [(INFO, m)]\<rparr>"

definition log_error :: "string \<Rightarrow> world \<Rightarrow> world" where
  "log_error m w = w\<lparr>log := log w @ [(ERROR, m)]\<rparr>"

definition now :: "env \<Rightarrow> world \<Rightarrow> nat \<times> world" where
  "now env w = (clk env (ticks w), w\<lparr>ticks := Suc (ticks w)\<rparr>)"

text \<open>\<^verbatim>\<open>str(Path(Config.OUTPUT_DIR) / name)\<close>; pathlib's removal of redundant
  separators is not modelled.\<close>

definition path_join :: "string \<Rightarrow> string \<Rightarrow> string" where
  "path_join d name = d @ ''/'' @ name"

text \<open>\<^verbatim>\<open>open(path, 'w')\<close> truncates or creates the file, \<^verbatim>\<open>open(path, 'a')\<close> creates
  it when absent; both raise OSError when the path cannot be opened. A write appends to
  the opened file.\<close>

definition open_w :: "env \<Rightarrow> string \<Rightarrow> world \<Rightarrow> (exc + unit) \<times> world" where
  "open_w env p w =
     (if writable env p then (Inr (), w\<lparr>fs := (fs w)(p \<mapsto> [])\<rparr>)
      else (Inl (Exc ''OSError'' (''cannot open '' @ p)), w))"

definition open_a :: "env \<Rightarrow> string \<Rightarrow> world \<Rightarrow> (exc + unit) \<times> world" where
  "open_a env p w =
     (if writable env p
      then (Inr (), w\<lparr>fs := (fs w)(p \<mapsto> (case fs w p of None \<Rightarrow> [] | Some c \<Rightarrow> c))\<rparr>)
      else (Inl (Exc ''OSError'' (''cannot open '' @ p)), w))"

definition write_file :: "string \<Rightarrow> string \<Rightarrow> world \<Rightarrow> world" where
  "write_file p s w = w\<lparr>fs := (fs w)(p \<mapsto> (case fs w p of None \<Rightarrow> [] | Some c \<Rightarrow> c) @ s)\<rparr>"

section \<open>CSVDataManager\<close>

subsection \<open>Sorting and cutting a data frame\<close>

fun is_na :: "pyval \<Rightarrow> bool" where
  "is_na VNaN = True"
| "is_na VNone = True"
| "is_na v = False"

fun is_str :: "pyval \<Rightarrow> bool" where
  "is_str (VStr s) = True"
| "is_str v = False"

fun str_of :: "pyval \<Rightarrow> string" where
  "str_of (VStr s) = s"
| "str_of v = []"

definition to_dict :: "dataframe \<Rightarrow> row list" where
  "to_dict df = map (zip (columns df)) (cells df)"

definition cell :: "dataframe \<Rightarrow> string \<Rightarrow> pyval list \<Rightarrow> pyval" where
  "cell df col cs = get (zip (columns df) cs) col"

text \<open>
  \<^verbatim>\<open>df.sort_values(col, ascending=False)\<close>: KeyError when the column is absent; rows
  whose key is missing come last, in their order; the others are reversed, sorted
  ascending and reversed again, so that the keys descend. Numbers are compared as
  numbers, strings as strings, and a column that mixes both raises TypeError. pandas'
  default sort leaves the order of rows with equal keys open; here they keep their order.
\<close>

definition sort_values_desc :: "string \<Rightarrow> dataframe \<Rightarrow> exc + dataframe" where
  "sort_values_desc col df =
     (if col \<notin> set (columns df) then Inl (Exc ''KeyError'' (quoted col))
      else
        let na = filter (\<lambda>cs. is_na (cell df col cs)) (cells df);
            present = filter (\<lambda>cs. \<not> is_na (cell df col cs)) (cells df)
        in if list_all (\<lambda>cs. is_num (cell df col cs)) present
           then Inr (df\<lparr>cells := rev (sort_key (\<lambda>cs. num_of (cell df col cs)) (rev present)) @ na\<rparr>)
           else if list_all (\<lambda>cs. is_str (cell df col cs)) present
           then Inr (df\<lparr>cells := rev (sort_key (\<lambda>cs. str_of (cell df col cs)) (rev present)) @ na\<rparr>)
           else Inl (Exc ''TypeError''
             (quoted ''<'' @ '' not supported between instances of '' @ quoted ''str'' @
              '' and '' @ quoted ''int'')))"

text \<open>\<^verbatim>\<open>df.head(n)\<close> is \<^verbatim>\<open>df.iloc[:n]\<close>: the first n rows, and for a negative n all rows
  but the last \<open>-n\<close>.\<close>

definition head :: "int \<Rightarrow> dataframe \<Rightarrow> dataframe" where
  "head n df =
     df\<lparr>cells := take (nat (if 0 \<le> n then n else int (length (cells df)) + n)) (cells df)\<rparr>"

subsection \<open>get_prospects and get_market_data\<close>

definition prospects_try :: "env \<Rightarrow> int \<Rightarrow> exc + row list" where
  "prospects_try env limit =
     (case read_prospects env of
        Inl e \<Rightarrow> Inl e
      | Inr df \<Rightarrow>
          (case sort_values_desc ''tier_score'' df of
             Inl e \<Rightarrow> Inl e
           | Inr df' \<Rightarrow> Inr (to_dict (head limit df'))))"

definition get_prospects :: "env \<Rightarrow> int \<Rightarrow> world \<Rightarrow> (exc + row list) \<times> world" where
  "get_prospects env limit w =
     (case prospects_try env limit of
        Inl e \<Rightarrow> (Inr [], log_error (''Error reading prospects CSV: '' @ exc_msg e) w)
      | Inr records \<Rightarrow> (Inr records, w))"

definition market_try :: "env \<Rightarrow> exc + row list" where
  "market_try env =
     (case read_market env of Inl e \<Rightarrow> Inl e | Inr df \<Rightarrow> Inr (to_dict df))"

definition get_market_data :: "env \<Rightarrow> world \<Rightarrow> (exc + row list) \<times> world" where
  "get_market_data env w =
     (case market_try env of
        Inl e \<Rightarrow> (Inr [], log_error (''Error reading market data CSV: '' @ exc_msg e) w)
      | Inr records \<Rightarrow> (Inr records, w))"

subsection \<open>save_report_metadata\<close>

text \<open>\<^verbatim>\<open>csv.writer.writerow\<close>: None is written as the empty field, any other value as
  its \<^verbatim>\<open>str\<close>; a field holding a comma, a double quote, CR or LF is put in double
  quotes with its quotes doubled; fields are joined by commas and the row ends in CR LF.\<close>

definition csv_text :: "pyval \<Rightarrow> string" where
  "csv_text v = (if v = VNone then [] else py_str v)"

definition dquote :: char where
  "dquote = CHR 0x22"

definition csv_special :: "char \<Rightarrow> bool" where
  "csv_special c = (c = CHR '','' \<or> c = dquote \<or> c = CHR 0x0D \<or> c = CHR 0x0A)"

definition csv_field :: "string \<Rightarrow> string" where
  "csv_field s =
     (if list_ex csv_special s
      then [dquote] @ concat (map (\<lambda>c. if c = dquote then [dquote, dquote] else [c]) s) @ [dquote]
      else s)"

fun join_commas :: "string list \<Rightarrow> string" where
  "join_commas [] = []"
| "join_commas [f] = f"
| "join_commas (f # g # rest) = f @ '','' @ join_commas (g # rest)"

definition writerow :: "string list \<Rightarrow> string" where
  "writerow values = join_commas (map csv_field values) @ [CHR 0x0D, CHR 0x0A]"

definition metadata_header :: "string list" where
  "metadata_header =
     [''timestamp'', ''report_type'', ''company_name'', ''file_path'', ''success'',
      ''processing_time'']"

definition metadata_file :: "env \<Rightarrow> string" where
  "metadata_file env = path_join (output_dir env) ''report_analytics.csv''"

definition metadata_row :: "string \<Rightarrow> row \<Rightarrow> string list" where
  "metadata_row stamp report_data =
     [stamp,
      csv_text (get_or report_data ''type'' (VStr ''unknown'')),
      csv_text (get_or report_data ''company_name'' (VStr [])),
      csv_text (get_or report_data ''file_path'' (VStr [])),
      csv_text (get_or report_data ''success'' (VBool False)),
      csv_text (get_or report_data ''processing_time'' (VInt 0))]"

text \<open>The first block of \<^verbatim>\<open>save_report_metadata\<close>: the header, only when the file does
  not exist.\<close>

definition create_headers :: "env \<Rightarrow> world \<Rightarrow> (exc + unit) \<times> world" where
  "create_headers env w =
     (if fs w (metadata_file env) = None then
        (case open_w env (metadata_file env) w of
           (Inl e, w1) \<Rightarrow> (Inl e, w1)
         | (Inr u, w1) \<Rightarrow> (Inr (), write_file (metadata_file env) (writerow metadata_header) w1))
      else (Inr (), w))"

definition save_report_metadata :: "env \<Rightarrow> row \<Rightarrow> world \<Rightarrow> (exc + unit) \<times> world" where
  "save_report_metadata env report_data w =
     (case create_headers env w of
        (Inl e, w1) \<Rightarrow> (Inl e, w1)
      | (Inr u, w1) \<Rightarrow>
          (case open_a env (metadata_file env) w1 of
             (Inl e, w2) \<Rightarrow> (Inl e, w2)
           | (Inr u, w2) \<Rightarrow>
               (case now env w2 of
                  (t, w3) \<Rightarrow>
                    (Inr (), write_file (metadata_file env)
                       (writerow (metadata_row (isoformat env t) report_data)) w3))))"

section \<open>ClaudeClient\<close>

definition euro :: string where
  "euro = [CHR 0xE2, CHR 0x82, CHR 0xAC]"

text \<open>The first f-string of \<^verbatim>\<open>generate_report\<close>. Its fields are evaluated from left to
  right; only the two \<^verbatim>\<open>:,\<close> fields can raise.\<close>

definition prospect_block :: "row \<Rightarrow> exc + string" where
  "prospect_block prospect_data =
     (case fmt_comma (get_or prospect_data ''salary_min'' (VInt 0)) of
        Inl e \<Rightarrow> Inl e
      | Inr salary_min \<Rightarrow>
          (case fmt_comma (get_or prospect_data ''salary_max'' (VInt 0)) of
             Inl e \<Rightarrow> Inl e
           | Inr salary_max \<Rightarrow>
               Inr (''\<newline>PROSPECT DATA:\<newline>Company: ''
                 @ py_str (get_or prospect_data ''company_name'' (VStr ''N/A''))
                 @ ''\<newline>Industry: '' @ py_str (get_or prospect_data ''industry'' (VStr ''N/A''))
                 @ ''\<newline>Size: '' @ py_str (get_or prospect_data ''company_size'' (VStr ''N/A''))
                 @ ''\<newline>Location: '' @ py_str (get_or prospect_data ''location'' (VStr ''N/A''))
                 @ ''\<newline>Role: '' @ py_str (get_or prospect_data ''job_title'' (VStr ''N/A''))
                 @ ''\<newline>Salary Range: '' @ euro @ salary_min @ '' - '' @ euro @ salary_max
                 @ ''\<newline>Days Open: '' @ py_str (get_or prospect_data ''days_open'' (VInt 0))
                 @ ''\<newline>Contact: '' @ py_str (get_or prospect_data ''contact_name'' (VStr ''N/A''))
                 @ '' ('' @ py_str (get_or prospect_data ''contact_title'' (VStr ''N/A'')) @ '')''
                 @ ''\<newline>Tier Score: '' @ py_str (get_or prospect_data ''tier_score'' (VInt 0))
                 @ ''/100\<newline>\<newline>MARKET CONTEXT:\<newline>'')))"

text \<open>The f-string appended for one matching market row.\<close>

definition sector_block :: "row \<Rightarrow> exc + string" where
  "sector_block sector =
     (case fmt_comma (get_or sector ''average_salary'' (VInt 0)) of
        Inl e \<Rightarrow> Inl e
      | Inr average_salary \<Rightarrow>
          Inr (''\<newline>Sector: '' @ py_str (get sector ''sector'')
            @ ''\<newline>Average Salary: '' @ euro @ average_salary
            @ ''\<newline>Open Positions: '' @ py_str (get_or sector ''open_positions'' (VInt 0))
            @ ''\<newline>Growth: '' @ py_str (get_or sector ''growth_percentage'' (VInt 0)) @ ''%''
            @ ''\<newline>Skills in Demand: '' @ py_str (get_or sector ''top_skills'' (VStr ''N/A''))
            @ ''\<newline>Market Trend: '' @ py_str (get_or sector ''market_trend'' (VStr ''N/A''))
            @ ''\<newline>''))"

text \<open>The loop over \<^verbatim>\<open>market_context\<close>: the test
  \<^verbatim>\<open>sector.get('sector') in prospect_data.get('industry', '')\<close>, and the block appended
  to the context when it holds.\<close>

fun add_market_context :: "row \<Rightarrow> row list \<Rightarrow> string \<Rightarrow> exc + string" where
  "add_market_context prospect_data [] context = Inr context"
| "add_market_context prospect_data (sector # rest) context =
     (case py_in (get sector ''sector'') (get_or prospect_data ''industry'' (VStr [])) of
        Inl e \<Rightarrow> Inl e
      | Inr matches \<Rightarrow>
          (if matches then
             (case sector_block sector of
                Inl e \<Rightarrow> Inl e
              | Inr block \<Rightarrow> add_market_context prospect_data rest (context @ block))
           else add_market_context prospect_data rest context))"

definition build_context :: "row \<Rightarrow> row list \<Rightarrow> exc + string" where
  "build_context prospect_data market_context =
     (case prospect_block prospect_data of
        Inl e \<Rightarrow> Inl e
      | Inr context \<Rightarrow> add_market_context prospect_data market_context context)"

text \<open>\<^verbatim>\<open>response.content[0].text\<close> of what \<^verbatim>\<open>messages.create\<close> returned or raised.\<close>

fun first_text :: "exc + string list \<Rightarrow> exc + string" where
  "first_text (Inl e) = Inl e"
| "first_text (Inr []) = Inl (Exc ''IndexError'' ''list index out of range'')"
| "first_text (Inr (t # ts)) = Inr t"

text \<open>The context is built outside the \<^verbatim>\<open>try\<close>; the request and the read of its
  answer are inside.\<close>

definition generate_report ::
  "env \<Rightarrow> string \<Rightarrow> row \<Rightarrow> row list \<Rightarrow> world \<Rightarrow> (exc + string) \<times> world" where
  "generate_report env prompt prospect_data market_context w =
     (case build_context prospect_data market_context of
        Inl e \<Rightarrow> (Inl e, w)
      | Inr context \<Rightarrow>
          (let full_prompt = prompt @ ''\<newline>\<newline>'' @ context;
               w1 = w\<lparr>api_calls := Suc (api_calls w)\<rparr>
           in case first_text (api env (api_calls w) full_prompt) of
                Inl e \<Rightarrow>
                  (Inr (''Error generating report: '' @ exc_msg e),
                   log_error (''Claude API error: '' @ exc_msg e) w1)
              | Inr text \<Rightarrow> (Inr text, w1)))"

section \<open>ReportGenerator\<close>

definition weekly_template :: string where
  "weekly_template =
     ''\<newline>''
     @ ''Schrijf een professionele Nederlandse recruitment markt analyse voor dit bedrijf.\<newline>''
     @ ''\<newline>''
     @ ''STRUCTUUR:\<newline>''
     @ ''1. Executive Summary (2-3 zinnen)\<newline>''
     @ ''2. Bedrijfsanalyse (positie in de markt)\<newline>''
     @ ''3. Functie-analyse (specifieke rol details)\<newline>''
     @ ''4. Marktcontext (salary benchmarks, groei trends)\<newline>''
     @ ''5. Recruitment strategie aanbevelingen\<newline>''
     @ ''6. Actie items\<newline>''
     @ ''\<newline>''
     @ ''Schrijf in professionele maar toegankelijke Nederlandse taal.\<newline>''
     @ ''Gebruik concrete cijfers en data waar beschikbaar.\<newline>''
     @ ''Houd het beknopt maar informatief (max 800 woorden).\<newline>''"

definition monthly_template :: string where
  "monthly_template =
     ''\<newline>''
     @ ''Schrijf een uitgebreide Nederlandse sector analyse rapport.\<newline>''
     @ ''\<newline>''
     @ ''STRUCTUUR:\<newline>''
     @ ''1. Sector Overview\<newline>''
     @ ''2. Markt Trends & Ontwikkelingen\<newline>''
     @ ''3. Salary Benchmarks\<newline>''
     @ ''4. Skills Gap Analyse\<newline>''
     @ ''5. Growth Opportunities\<newline>''
     @ ''6. Strategic Recommendations\<newline>''
     @ ''7. Forecast & Outlook\<newline>''
     @ ''\<newline>''
     @ ''Schrijf een diepgaand rapport van 1500-2000 woorden.\<newline>''
     @ ''Gebruik alle beschikbare marktdata.\<newline>''
     @ ''Focus op actionable insights voor recruitment professionals.\<newline>''"

definition load_prompt_template :: "string \<Rightarrow> string" where
  "load_prompt_template report_type =
     (case map_of [(''weekly'', weekly_template), (''monthly'', monthly_template)] report_type of
        None \<Rightarrow> weekly_template
      | Some t \<Rightarrow> t)"

definition weekly_prompt :: string where
  "weekly_prompt = load_prompt_template ''weekly''"

definition monthly_prompt :: string where
  "monthly_prompt = load_prompt_template ''monthly''"

subsection \<open>generate_weekly_reports\<close>

definition weekly_filename :: "env \<Rightarrow> string \<Rightarrow> nat \<Rightarrow> string" where
  "weekly_filename env company_name t =
     ''Weekly_Report_'' @ company_name @ ''_'' @ strftime env ''%Y%m%d'' t @ ''.md''"

definition weekly_metadata :: "env \<Rightarrow> row \<Rightarrow> string \<Rightarrow> nat \<Rightarrow> nat \<Rightarrow> row" where
  "weekly_metadata env prospect file_path start_time t =
     [(''type'', VStr ''weekly''),
      (''company_name'', get prospect ''company_name''),
      (''file_path'', VStr file_path),
      (''success'', VBool True),
      (''processing_time'', VStr (total_seconds env start_time t))]"

text \<open>
  The body of the \<^verbatim>\<open>try\<close> for one prospect, on the list \<^verbatim>\<open>report_files\<close> and the
  state. The seconds since the start are a float; the metadata carries the text that
  \<^verbatim>\<open>str\<close> gives for it.
\<close>

definition weekly_try ::
  "env \<Rightarrow> nat \<Rightarrow> row list \<Rightarrow> nat \<Rightarrow> nat \<Rightarrow> row \<Rightarrow> string list \<times> world
     \<Rightarrow> (exc + unit) \<times> (string list \<times> world)" where
  "weekly_try env start_time market_data len i prospect st =
     (case st of (report_files, w) \<Rightarrow>
       (let w1 = log_info (''Processing prospect '' @ show_nat i @ ''/'' @ show_nat len
                   @ '': '' @ py_str (get prospect ''company_name'')) w
        in case generate_report env weekly_prompt prospect market_data w1 of
             (Inl e, w2) \<Rightarrow> (Inl e, (report_files, w2))
           | (Inr report_content, w2) \<Rightarrow>
               (case py_replace_spaces (get_or prospect ''company_name'' (VStr ''Unknown'')) of
                  Inl e \<Rightarrow> (Inl e, (report_files, w2))
                | Inr company_name \<Rightarrow>
                    (case now env w2 of (t1, w3) \<Rightarrow>
                      (let file_path =
                             path_join (output_dir env) (weekly_filename env company_name t1)
                       in case open_w env file_path w3 of
                            (Inl e, w4) \<Rightarrow> (Inl e, (report_files, w4))
                          | (Inr u, w4) \<Rightarrow>
                              (let w5 = write_file file_path
                                     (''# Weekly Recruitment Report - ''
                                        @ py_str (get prospect ''company_name'')
                                        @ ''\<newline>\<newline>'') w4
                               in case now env w5 of (t2, w6) \<Rightarrow>
                                 (let w7 = write_file file_path
                                        (''**Generated:** '' @ strftime env ''%d-%m-%Y %H:%M'' t2
                                           @ ''\<newline>\<newline>'') w6;
                                      w8 = write_file file_path report_content w7;
                                      report_files' = report_files @ [file_path]
                                  in case now env w8 of (t3, w9) \<Rightarrow>
                                    (case save_report_metadata env
                                            (weekly_metadata env prospect file_path start_time t3)
                                            w9 of
                                       (Inl e, w10) \<Rightarrow> (Inl e, (report_files', w10))
                                     | (Inr u, w10) \<Rightarrow>
                                         (Inr (), (report_files',
                                            log_info (''Report saved: '' @ file_path) w10))))))))))"

text \<open>One pass of the loop: the \<^verbatim>\<open>try\<close>, and the handler that logs and continues.\<close>

definition weekly_iteration ::
  "env \<Rightarrow> nat \<Rightarrow> row list \<Rightarrow> nat \<Rightarrow> nat \<Rightarrow> row \<Rightarrow> string list \<times> world
     \<Rightarrow> (exc + unit) \<times> (string list \<times> world)" where
  "weekly_iteration env start_time market_data len i prospect st =
     (case weekly_try env start_time market_data len i prospect st of
        (Inl e, (report_files, w)) \<Rightarrow>
          (Inr (), (report_files,
             log_error (''Error processing prospect '' @ py_str (get prospect ''company_name'')
                          @ '': '' @ exc_msg e) w))
      | (Inr u, st') \<Rightarrow> (Inr (), st'))"

text \<open>\<^verbatim>\<open>for i, prospect in enumerate(prospects, 1)\<close>.\<close>

definition enumerate1 :: "'a list \<Rightarrow> (nat \<times> 'a) list" where
  "enumerate1 xs = zip [1..<Suc (length xs)] xs"

fun weekly_loop ::
  "env \<Rightarrow> nat \<Rightarrow> row list \<Rightarrow> nat \<Rightarrow> (nat \<times> row) list \<Rightarrow> string list \<times> world
     \<Rightarrow> (exc + unit) \<times> (string list \<times> world)" where
  "weekly_loop env start_time market_data len [] st = (Inr (), st)"
| "weekly_loop env start_time market_data len ((i, prospect) # rest) st =
     (case weekly_iteration env start_time market_data len i prospect st of
        (Inl e, st') \<Rightarrow> (Inl e, st')
      | (Inr u, st') \<Rightarrow> weekly_loop env start_time market_data len rest st')"

definition generate_weekly_reports ::
  "env \<Rightarrow> int \<Rightarrow> world \<Rightarrow> (exc + string list) \<times> world" where
  "generate_weekly_reports env prospects_count w =
     (case now env w of (start_time, w0) \<Rightarrow>
       (let w1 = log_info (''Generating weekly reports for top '' @ show_int prospects_count
                   @ '' prospects'') w0
        in case get_prospects env prospects_count w1 of
             (Inl e, w2) \<Rightarrow> (Inl e, w2)
           | (Inr prospects, w2) \<Rightarrow>
               (case get_market_data env w2 of
                  (Inl e, w3) \<Rightarrow> (Inl e, w3)
                | (Inr market_data, w3) \<Rightarrow>
                    (case weekly_loop env start_time market_data (length prospects)
                            (enumerate1 prospects) ([], w3) of
                       (Inl e, (report_files, w4)) \<Rightarrow> (Inl e, w4)
                     | (Inr u, (report_files, w4)) \<Rightarrow>
                         (case now env w4 of (t, w5) \<Rightarrow>
                           (Inr report_files,
                            log_info (''Generated '' @ show_nat (length report_files)
                              @ '' reports in '' @ total_seconds_2f env start_time t
                              @ '' seconds'') w5))))))"

subsection \<open>generate_monthly_report\<close>

text \<open>The comprehension \<^verbatim>\<open>[item for item in items if sector.lower() in
  item.get(field, '').lower()]\<close>.\<close>

fun filter_sector ::
  "(string \<Rightarrow> string) \<Rightarrow> string \<Rightarrow> string \<Rightarrow> row list \<Rightarrow> exc + row list" where
  "filter_sector lower sector field [] = Inr []"
| "filter_sector lower sector field (item # rest) =
     (case py_lower lower (get_or item field (VStr [])) of
        Inl e \<Rightarrow> Inl e
      | Inr name \<Rightarrow>
          (case filter_sector lower sector field rest of
             Inl e \<Rightarrow> Inl e
           | Inr kept \<Rightarrow> Inr (if sublist (lower sector) name then item # kept else kept)))"

text \<open>\<^verbatim>\<open>if sector != 'all'\<close>: the market rows are filtered on their sector, then the
  prospects on their industry.\<close>

definition filter_data ::
  "(string \<Rightarrow> string) \<Rightarrow> string \<Rightarrow> row list \<Rightarrow> row list
     \<Rightarrow> exc + (row list \<times> row list)" where
  "filter_data lower sector market_data prospects =
     (if sector \<noteq> ''all'' then
        (case filter_sector lower sector ''sector'' market_data of
           Inl e \<Rightarrow> Inl e
         | Inr market_data' \<Rightarrow>
             (case filter_sector lower sector ''industry'' prospects of
                Inl e \<Rightarrow> Inl e
              | Inr prospects' \<Rightarrow> Inr (market_data', prospects')))
      else Inr (market_data, prospects))"

text \<open>\<^verbatim>\<open>sum(item.get('average_salary', 0) for item in market_data) // len(market_data)
  if market_data else 0\<close>.\<close>

definition avg_salary :: "row list \<Rightarrow> exc + pyval" where
  "avg_salary market_data =
     (if market_data \<noteq> [] then
        (case py_sum (map (\<lambda>item. get_or item ''average_salary'' (VInt 0)) market_data) of
           Inl e \<Rightarrow> Inl e
         | Inr s \<Rightarrow> py_floordiv s (int (length market_data)))
      else Inr (VInt 0))"

definition aggregate_context :: "string \<Rightarrow> row list \<Rightarrow> row list \<Rightarrow> exc + row" where
  "aggregate_context sector prospects market_data =
     (case avg_salary market_data of
        Inl e \<Rightarrow> Inl e
      | Inr avg \<Rightarrow>
          (case py_sum (map (\<lambda>item. get_or item ''open_positions'' (VInt 0)) market_data) of
             Inl e \<Rightarrow> Inl e
           | Inr positions \<Rightarrow>
               Inr [(''sector'', VStr sector),
                    (''total_prospects'', VInt (int (length prospects))),
                    (''market_segments'', VInt (int (length market_data))),
                    (''avg_salary'', avg),
                    (''total_positions'', positions)]))"

text \<open>The first half of \<^verbatim>\<open>generate_monthly_report\<close>: the two reads, the filter and the
  aggregates. It yields the context and the market rows handed to the client.\<close>

definition monthly_data ::
  "env \<Rightarrow> string \<Rightarrow> world \<Rightarrow> (exc + (row \<times> row list)) \<times> world" where
  "monthly_data env sector w =
     (case get_market_data env w of
        (Inl e, w1) \<Rightarrow> (Inl e, w1)
      | (Inr market_data, w1) \<Rightarrow>
          (case get_prospects env 50 w1 of
             (Inl e, w2) \<Rightarrow> (Inl e, w2)
           | (Inr prospects, w2) \<Rightarrow>
               (case filter_data (str_lower env) sector market_data prospects of
                  Inl e \<Rightarrow> (Inl e, w2)
                | Inr (market_data', prospects') \<Rightarrow>
                    (case aggregate_context sector prospects' market_data' of
                       Inl e \<Rightarrow> (Inl e, w2)
                     | Inr context \<Rightarrow> (Inr (context, market_data'), w2)))))"

definition monthly_filename :: "env \<Rightarrow> string \<Rightarrow> nat \<Rightarrow> string" where
  "monthly_filename env sector t =
     ''Monthly_Report_'' @ sector @ ''_'' @ strftime env ''%Y%m'' t @ ''.md''"

definition monthly_metadata :: "env \<Rightarrow> string \<Rightarrow> string \<Rightarrow> nat \<Rightarrow> nat \<Rightarrow> row" where
  "monthly_metadata env sector file_path start_time t =
     [(''type'', VStr ''monthly''),
      (''company_name'', VStr (''Sector_'' @ sector)),
      (''file_path'', VStr file_path),
      (''success'', VBool True),
      (''processing_time'', VStr (total_seconds env start_time t))]"

definition generate_monthly_report ::
  "env \<Rightarrow> string \<Rightarrow> world \<Rightarrow> (exc + string) \<times> world" where
  "generate_monthly_report env sector w =
     (case now env w of (start_time, w0) \<Rightarrow>
       (let w1 = log_info (''Generating monthly report for sector: '' @ sector) w0
        in case monthly_data env sector w1 of
             (Inl e, w2) \<Rightarrow> (Inl e, w2)
           | (Inr (context, market_data), w2) \<Rightarrow>
               (case generate_report env monthly_prompt context market_data w2 of
                  (Inl e, w3) \<Rightarrow> (Inl e, w3)
                | (Inr report_content, w3) \<Rightarrow>
                    (case now env w3 of (t1, w4) \<Rightarrow>
                      (let file_path =
                             path_join (output_dir env) (monthly_filename env sector t1)
                       in case open_w env file_path w4 of
                            (Inl e, w5) \<Rightarrow> (Inl e, w5)
                          | (Inr u, w5) \<Rightarrow>
                              (let w6 = write_file file_path
                                     (''# Monthly Sector Report - '' @ str_title env sector
                                        @ ''\<newline>\<newline>'') w5
                               in case now env w6 of (t2, w7) \<Rightarrow>
                                 (let w8 = write_file file_path
                                        (''**Generated:** '' @ strftime env ''%d-%m-%Y %H:%M'' t2
                                           @ ''\<newline>\<newline>'') w7;
                                      w9 = write_file file_path report_content w8
                                  in case now env w9 of (t3, w10) \<Rightarrow>
                                    (case save_report_metadata env
                                            (monthly_metadata env sector file_path start_time t3)
                                            w10 of
                                       (Inl e, w11) \<Rightarrow> (Inl e, w11)
                                     | (Inr u, w11) \<Rightarrow>
                                         (Inr file_path,
                                          log_info (''Monthly report saved: '' @ file_path)
                                            w11)))))))))"

section \<open>Sample data\<close>

text \<open>
  The case mappings of the sample environment: \<^verbatim>\<open>str.lower\<close> and \<^verbatim>\<open>str.title\<close> as
  they act on ASCII text. They are sample values only: the functions above take the case
  mapping from the environment, whatever it does to other letters.
\<close>

definition uppers :: string where
  "uppers = ''ABCDEFGHIJKLMNOPQRSTUVWXYZ''"

definition lowers :: string where
  "lowers = ''abcdefghijklmnopqrstuvwxyz''"

definition lower_char :: "char \<Rightarrow> char" where
  "lower_char c = (case map_of (zip uppers lowers) c of None \<Rightarrow> c | Some d \<Rightarrow> d)"

definition upper_char :: "char \<Rightarrow> char" where
  "upper_char c = (case map_of (zip lowers uppers) c of None \<Rightarrow> c | Some d \<Rightarrow> d)"

definition ascii_lower :: "string \<Rightarrow> string" where
  "ascii_lower s = map lower_char s"

definition is_letter :: "char \<Rightarrow> bool" where
  "is_letter c = (c \<in> set (uppers @ lowers))"

fun ascii_title_from :: "bool \<Rightarrow> string \<Rightarrow> string" where
  "ascii_title_from prev [] = []"
| "ascii_title_from prev (c # cs) =
     (if prev then lower_char c else upper_char c) # ascii_title_from (is_letter c) cs"

definition ascii_title :: "string \<Rightarrow> string" where
  "ascii_title s = ascii_title_from False s"

text \<open>A small environment: three prospects, two of them with the same tier score, four
  market rows, every path writable, an API that answers every request, and a clock that
  ticks once per reading.\<close>

definition sample_prospects :: dataframe where
  "sample_prospects =
     \<lparr>columns = [''company_name'', ''industry'', ''salary_min'', ''salary_max'', ''tier_score''],
      cells = [[VStr ''Acme BV'', VStr ''Technology'', VInt 50000, VInt 70000, VInt 80],
               [VStr ''Bolt NV'', VStr ''Finance'', VInt 60000, VInt 90000, VInt 95],
               [VStr ''Core Tech'', VStr ''Technology'', VInt 40000, VInt 55000, VInt 80]]\<rparr>"

definition sample_market :: dataframe where
  "sample_market =
     \<lparr>columns = [''sector'', ''average_salary'', ''open_positions''],
      cells = [[VStr ''Technology'', VInt 65000, VInt 120],
               [VStr ''Finance'', VInt 72001, VInt 40],
               [VStr ''Tech'', VInt 60000, VInt 15],
               [VStr ''technology'', VInt 1000, VInt 1]]\<rparr>"

definition sample_env :: env where
  "sample_env =
     \<lparr>read_prospects = Inr sample_prospects,
      read_market = Inr sample_market,
      output_dir = ''out'',
      writable = (\<lambda>p. True),
      api = (\<lambda>k prompt. Inr [''report'']),
      clk = (\<lambda>k. k),
      strftime = (\<lambda>f t. ''D''),
      isoformat = (\<lambda>t. ''T''),
      total_seconds = (\<lambda>a b. ''1.5''),
      total_seconds_2f = (\<lambda>a b. ''1.50''),
      str_lower = ascii_lower,
      str_title = ascii_title\<rparr>"

definition empty_world :: world where
  "empty_world = \<lparr>fs = Map.empty, log = [], ticks = 0, api_calls = 0\<rparr>"

text \<open>The context block of the first sample prospect with the sample market rows.\<close>

definition sample_context :: string where
  "sample_context =
     ''\<newline>PROSPECT DATA:\<newline>Company: Acme BV\<newline>Industry: Technology\<newline>''
     @ ''Size: N/A\<newline>Location: N/A\<newline>Role: N/A\<newline>''
     @ ''Salary Range: '' @ euro @ ''50,000 - '' @ euro @ ''70,000\<newline>''
     @ ''Days Open: 0\<newline>Contact: N/A (N/A)\<newline>Tier Score: 80/100\<newline>''
     @ ''\<newline>MARKET CONTEXT:\<newline>''
     @ ''\<newline>Sector: Technology\<newline>Average Salary: '' @ euro @ ''65,000\<newline>''
     @ ''Open Positions: 120\<newline>Growth: 0%\<newline>Skills in Demand: N/A\<newline>''
     @ ''Market Trend: N/A\<newline>''
     @ ''\<newline>Sector: Tech\<newline>Average Salary: '' @ euro @ ''60,000\<newline>''
     @ ''Open Positions: 15\<newline>Growth: 0%\<newline>Skills in Demand: N/A\<newline>''
     @ ''Market Trend: N/A\<newline>''"

text \<open>A market file with an empty sector cell.\<close>

definition blank_sector_market :: "row list" where
  "blank_sector_market = [[(''sector'', VNaN), (''average_salary'', VInt 50000)]]"

text \<open>The sample environment with an API that cannot be reached, and with input files
  that are missing or empty.\<close>

definition unreachable_api_env :: env where
  "unreachable_api_env =
     sample_env\<lparr>api := (\<lambda>k prompt. Inl (Exc ''APIConnectionError'' ''Connection error.''))\<rparr>"

definition missing_files_env :: env where
  "missing_files_env =
     sample_env\<lparr>read_prospects := Inl (Exc ''FileNotFoundError'' ''No such file or directory''),
                read_market := Inl (Exc ''EmptyDataError'' ''No columns to parse from file'')\<rparr>"

definition negative_market :: "row list" where
  "negative_market = [[(''sector'', VStr ''A''), (''average_salary'', VInt (- 7))],
                      [(''sector'', VStr ''B'')]]"

text \<open>
  A prospects file with more than fifty rows: thirty prospects in finance with the tier
  score 10 come first in the file, fifty-five in technology with the tier score 80
  follow. The aggregates of the monthly report for the filter \<open>tech\<close> are those expected
  from the sample market rows.
\<close>

definition many_prospects :: dataframe where
  "many_prospects =
     \<lparr>columns = [''company_name'', ''industry'', ''tier_score''],
      cells = replicate 30 [VStr ''Bolt NV'', VStr ''Finance'', VInt 10]
              @ replicate 55 [VStr ''Acme BV'', VStr ''Technology'', VInt 80]\<rparr>"

definition many_prospects_env :: env where
  "many_prospects_env = sample_env\<lparr>read_prospects := Inr many_prospects\<rparr>"

definition tech_context :: row where
  "tech_context =
     [(''sector'', VStr ''tech''), (''total_prospects'', VInt 50), (''market_segments'', VInt 3),
      (''avg_salary'', VInt 42000), (''total_positions'', VInt 136)]"

definition tech_market :: "row list" where
  "tech_market = [to_dict sample_market ! 0, to_dict sample_market ! 2, to_dict sample_market ! 3]"




text \<open>A smaller environment for whole runs of the weekly batch: two prospects and no
  market rows; and the same with an empty company name for the better prospect.\<close>

definition two_prospects :: dataframe where
  "two_prospects =
     \<lparr>columns = [''company_name'', ''tier_score''],
      cells = [[VStr ''A B'', VInt 2], [VStr ''C'', VInt 1]]\<rparr>"

definition no_market :: dataframe where
  "no_market = \<lparr>columns = [''sector''], cells = []\<rparr>"

definition small_env :: env where
  "small_env =
     sample_env\<lparr>read_prospects := Inr two_prospects, read_market := Inr no_market,
                output_dir := ''o''\<rparr>"

definition blank_name_prospects :: dataframe where
  "blank_name_prospects =
     \<lparr>columns = [''company_name'', ''tier_score''],
      cells = [[VNaN, VInt 2], [VStr ''C'', VInt 1]]\<rparr>"

definition blank_name_env :: env where
  "blank_name_env = small_env\<lparr>read_prospects := Inr blank_name_prospects\<rparr>"

definition blank_name_row :: row where
  "blank_name_row = [(''company_name'', VNaN), (''tier_score'', VInt 2)]"

definition c_row :: row where
  "c_row = [(''company_name'', VStr ''C''), (''tier_score'', VInt 1)]"

definition attribute_error :: exc where
  "attribute_error =
     Exc ''AttributeError'' (quoted ''float'' @ '' object has no attribute '' @ quoted ''replace'')"

text \<open>The state after the \<^verbatim>\<open>try\<close> for the prospect without a name has failed, started
  in the empty state.\<close>

definition failed_try_world :: world where
  "failed_try_world =
     \<lparr>fs = Map.empty, log = [(INFO, ''Processing prospect 1/2: nan'')], ticks = 0,
      api_calls = 1\<rparr>"

definition ab_path :: string where
  "ab_path = ''o/Weekly_Report_A_B_D.md''"

definition c_path :: string where
  "c_path = ''o/Weekly_Report_C_D.md''"

section \<open>Orders\<close>

text \<open>
  The order \<^verbatim>\<open>sort_values(ascending=False)\<close> establishes between the key of an earlier
  row and the key of a later one: no missing key before a present one, numbers
  non-increasing, strings non-increasing.
\<close>

definition score_order :: "pyval \<Rightarrow> pyval \<Rightarrow> bool" where
  "score_order a b =
     ((is_na a \<longrightarrow> is_na b) \<and>
      (is_num a \<and> is_num b \<longrightarrow> num_of b \<le> num_of a) \<and>
      (is_str a \<and> is_str b \<longrightarrow> str_of b \<le> str_of a))"

definition tier_score :: "row \<Rightarrow> pyval" where
  "tier_score prospect = get prospect ''tier_score''"

section \<open>Evaluation\<close>

lemma show_nat_small: "n < 10 \<Longrightarrow> show_nat n = [digit_char n]"
  by (simp add: show_nat.simps)

lemma show_nat_big: "\<not> n < 10 \<Longrightarrow> show_nat n = show_nat (n div 10) @ [digit_char n]"
  by (subst show_nat.simps) simp

lemmas show_simps = show_nat_small show_nat_big digit_char_def show_int_def
  show_int_grouped_def

section \<open>Arithmetic of the aggregates\<close>

lemma py_sum_from_nums:
  "list_all is_num vs \<Longrightarrow>
   py_sum_from (VInt a) vs = Inr (VInt (a + sum_list (map num_of vs)))"
  by (induction vs arbitrary: a) (simp_all add: py_add_def add.assoc)

lemma py_sum_nums:
  "list_all is_num vs \<Longrightarrow> py_sum vs = Inr (VInt (sum_list (map num_of vs)))"
  by (simp add: py_sum_def py_sum_from_nums)

lemma py_add_error: "py_add a b = Inl e \<Longrightarrow> exc_class e = ''TypeError''"
  by (auto simp: py_add_def split: if_splits)

lemma py_sum_from_error: "py_sum_from acc vs = Inl e \<Longrightarrow> exc_class e = ''TypeError''"
  by (induction vs arbitrary: acc) (auto split: sum.splits dest: py_add_error)

lemma py_floordiv_nonzero:
  "n \<noteq> 0 \<Longrightarrow> exc_class e = ''ZeroDivisionError'' \<Longrightarrow> py_floordiv a n \<noteq> Inl e"
  by (cases e) (auto simp: py_floordiv_def)

text \<open>
  C4. The average salary of the monthly aggregates is 0 for an empty market-data list;
  for a non-empty list of rows whose \<open>average_salary\<close> fields are numbers (an absent
  field counts as 0) it is the floor of the sum of the fields divided by the number of
  rows; and for no list at all does the computation raise ZeroDivisionError.
\<close>

theorem avg_salary_floor_division:
  "avg_salary [] = Inr (VInt 0)
   \<and> (market_data \<noteq> [] \<and>
        list_all (\<lambda>item. is_num (get_or item ''average_salary'' (VInt 0))) market_data \<longrightarrow>
      avg_salary market_data =
        Inr (VInt (sum_list (map (\<lambda>item. num_of (get_or item ''average_salary'' (VInt 0)))
                      market_data)
                   div int (length market_data))))
   \<and> (exc_class e = ''ZeroDivisionError'' \<longrightarrow> avg_salary market_data \<noteq> Inl e)"
proof (intro conjI impI)
  show "avg_salary [] = Inr (VInt 0)"
    by (simp add: avg_salary_def)
next
  assume h: "market_data \<noteq> [] \<and>
    list_all (\<lambda>item. is_num (get_or item ''average_salary'' (VInt 0))) market_data"
  then have "list_all is_num (map (\<lambda>item. get_or item ''average_salary'' (VInt 0)) market_data)"
    by (simp add: list_all_iff)
  then have "py_sum (map (\<lambda>item. get_or item ''average_salary'' (VInt 0)) market_data) =
      Inr (VInt (sum_list (map (\<lambda>item. num_of (get_or item ''average_salary'' (VInt 0)))
        market_data)))"
    by (simp add: py_sum_nums comp_def)
  with h show "avg_salary market_data =
        Inr (VInt (sum_list (map (\<lambda>item. num_of (get_or item ''average_salary'' (VInt 0)))
                      market_data)
                   div int (length market_data)))"
    by (simp add: avg_salary_def py_floordiv_def)
next
  assume c: "exc_class e = ''ZeroDivisionError''"
  show "avg_salary market_data \<noteq> Inl e"
  proof (cases "market_data = []")
    case True
    then show ?thesis by (simp add: avg_salary_def)
  next
    case False
    then have n: "int (length market_data) \<noteq> 0" by simp
    show ?thesis
    proof (cases "py_sum (map (\<lambda>item. get_or item ''average_salary'' (VInt 0)) market_data)")
      case (Inl e')
      then have "exc_class e' = ''TypeError''"
        by (simp add: py_sum_def py_sum_from_error)
      then have "exc_class e' \<noteq> ''ZeroDivisionError''" by simp
      with Inl False c show ?thesis by (auto simp: avg_salary_def)
    next
      case (Inr s)
      with False show ?thesis
        using py_floordiv_nonzero [OF n c, of s] by (simp add: avg_salary_def)
    qed
  qed
qed

theorem avg_salary_floor_division_witness:
  "negative_market \<noteq> []
   \<and> list_all (\<lambda>item. is_num (get_or item ''average_salary'' (VInt 0))) negative_market
   \<and> avg_salary negative_market = Inr (VInt (- 4))
   \<and> exc_class (Exc ''ZeroDivisionError'' []) = ''ZeroDivisionError''
   \<and> avg_salary negative_market \<noteq> Inl (Exc ''ZeroDivisionError'' [])"
  using avg_salary_floor_division [of negative_market "Exc ''ZeroDivisionError'' []"]
  by (simp add: negative_market_def get_or_def)

section \<open>Sector filter of the monthly report\<close>

lemma py_lower_Inr: "py_lower lower v = Inr s \<Longrightarrow> is_str v \<and> s = lower (str_of v)"
  by (cases v) auto

lemma filter_sector_result:
  "filter_sector lower sector field items = Inr kept \<Longrightarrow>
   list_all (\<lambda>item. is_str (get_or item field (VStr []))) items \<and>
   kept = filter (\<lambda>item. sublist (lower sector) (lower (str_of (get_or item field (VStr [])))))
            items"
proof (induction items arbitrary: kept)
  case Nil
  then show ?case by simp
next
  case (Cons item rest)
  from Cons.prems obtain name kept' where
    n: "py_lower lower (get_or item field (VStr [])) = Inr name" and
    k: "filter_sector lower sector field rest = Inr kept'" and
    r: "kept = (if sublist (lower sector) name then item # kept' else kept')"
    by (auto split: sum.splits)
  from py_lower_Inr [OF n] Cons.IH [OF k] r show ?case by simp
qed

lemma filter_sector_total:
  "list_all (\<lambda>item. is_str (get_or item field (VStr []))) items \<Longrightarrow>
   \<exists>kept. filter_sector lower sector field items = Inr kept"
proof (induction items)
  case Nil
  then show ?case by simp
next
  case (Cons item rest)
  then obtain s where "get_or item field (VStr []) = VStr s"
    by (cases "get_or item field (VStr [])") auto
  with Cons show ?case by auto
qed

lemmas eval_simps = ascii_lower_def lower_char_def uppers_def lowers_def get_or_def to_dict_def
  sample_market_def sample_prospects_def filter_data_def sublist_code(3)

section \<open>The context block and the client\<close>

lemma py_in_Inr:
  "py_in v u = Inr b \<Longrightarrow> is_str v \<and> is_str u \<and> b = sublist (str_of v) (str_of u)"
  by (cases v; cases u) auto

lemma add_market_context_result:
  "add_market_context prospect_data market_context ctx = Inr out \<Longrightarrow>
   list_all (\<lambda>sector. is_str (get sector ''sector'')) market_context \<and>
   (\<exists>blocks.
      map sector_block
        (filter (\<lambda>sector. sublist (str_of (get sector ''sector''))
                   (str_of (get_or prospect_data ''industry'' (VStr [])))) market_context) =
        map Inr blocks \<and>
      out = ctx @ concat blocks)"
proof (induction market_context arbitrary: ctx)
  case Nil
  then show ?case by simp
next
  case (Cons sector rest)
  let ?ind = "get_or prospect_data ''industry'' (VStr [])"
  from Cons.prems obtain matches where
    m: "py_in (get sector ''sector'') ?ind = Inr matches"
    by (auto split: sum.splits)
  note s = py_in_Inr [OF m]
  show ?case
  proof (cases matches)
    case True
    with Cons.prems m obtain block where
      b: "sector_block sector = Inr block" and
      r: "add_market_context prospect_data rest (ctx @ block) = Inr out"
      by (auto split: sum.splits)
    from Cons.IH [OF r] obtain blocks where
      "list_all (\<lambda>sector. is_str (get sector ''sector'')) rest"
      "map sector_block
        (filter (\<lambda>sector. sublist (str_of (get sector ''sector'')) (str_of ?ind)) rest) =
        map Inr blocks"
      "out = (ctx @ block) @ concat blocks"
      by blast
    with s True b show ?thesis
      by (intro conjI exI [of _ "block # blocks"]) simp_all
  next
    case False
    with Cons.prems m have
      r: "add_market_context prospect_data rest ctx = Inr out"
      by simp
    from Cons.IH [OF r] s False show ?thesis by auto
  qed
qed

lemma fmt_comma_ok: "\<not> isl (fmt_comma v) \<Longrightarrow> \<exists>s. fmt_comma v = Inr s"
  by (cases "fmt_comma v") auto

lemma add_market_context_total:
  "is_str (get_or prospect_data ''industry'' (VStr [])) \<Longrightarrow>
   list_all (\<lambda>sector. is_str (get sector ''sector'') \<and>
      \<not> isl (fmt_comma (get_or sector ''average_salary'' (VInt 0)))) market_context \<Longrightarrow>
   \<exists>out. add_market_context prospect_data market_context ctx = Inr out"
proof (induction market_context arbitrary: ctx)
  case Nil
  then show ?case by simp
next
  case (Cons sector rest)
  from Cons.prems obtain a c where
    v: "get sector ''sector'' = VStr a" "get_or prospect_data ''industry'' (VStr []) = VStr c"
    by (cases "get sector ''sector''"; cases "get_or prospect_data ''industry'' (VStr [])") auto
  from Cons.prems obtain s where
    f: "fmt_comma (get_or sector ''average_salary'' (VInt 0)) = Inr s"
    using fmt_comma_ok by auto
  from Cons.prems have rest: "list_all (\<lambda>sector. is_str (get sector ''sector'') \<and>
      \<not> isl (fmt_comma (get_or sector ''average_salary'' (VInt 0)))) rest"
    by simp
  from Cons.IH [OF Cons.prems(1) rest] v f show ?case
    by (simp add: sector_block_def)
qed

text \<open>
  C7. Whenever the context block is built, every market row has a string in its sector
  field, and the block is the prospect's part followed by the parts of exactly those
  market rows whose sector field is a substring (compared as written, byte for byte) of
  the subject's industry field, in the order of the input. The block is built whenever
  the industry and the sector fields are strings and the fields printed with a thousands
  separator can be printed so.
\<close>

theorem context_matches_sector_rows:
  "(build_context prospect_data market_context = Inr ctx \<longrightarrow>
      list_all (\<lambda>sector. is_str (get sector ''sector'')) market_context \<and>
      (\<exists>header blocks.
         prospect_block prospect_data = Inr header \<and>
         map sector_block
           (filter (\<lambda>sector. sublist (str_of (get sector ''sector''))
                      (str_of (get_or prospect_data ''industry'' (VStr [])))) market_context) =
           map Inr blocks \<and>
         ctx = header @ concat blocks))
   \<and> (is_str (get_or prospect_data ''industry'' (VStr [])) \<and>
      \<not> isl (fmt_comma (get_or prospect_data ''salary_min'' (VInt 0))) \<and>
      \<not> isl (fmt_comma (get_or prospect_data ''salary_max'' (VInt 0))) \<and>
      list_all (\<lambda>sector. is_str (get sector ''sector'') \<and>
        \<not> isl (fmt_comma (get_or sector ''average_salary'' (VInt 0)))) market_context \<longrightarrow>
      (\<exists>built. build_context prospect_data market_context = Inr built))"
proof -
  have form: "list_all (\<lambda>sector. is_str (get sector ''sector'')) market_context \<and>
      (\<exists>header blocks.
         prospect_block prospect_data = Inr header \<and>
         map sector_block
           (filter (\<lambda>sector. sublist (str_of (get sector ''sector''))
                      (str_of (get_or prospect_data ''industry'' (VStr [])))) market_context) =
           map Inr blocks \<and>
         ctx = header @ concat blocks)"
    if h: "build_context prospect_data market_context = Inr ctx"
  proof -
    from h obtain header where
      p: "prospect_block prospect_data = Inr header" and
      a: "add_market_context prospect_data market_context header = Inr ctx"
      by (auto simp: build_context_def split: sum.splits)
    from add_market_context_result [OF a] p show ?thesis by blast
  qed
  have total: "\<exists>built. build_context prospect_data market_context = Inr built"
    if h: "is_str (get_or prospect_data ''industry'' (VStr [])) \<and>
      \<not> isl (fmt_comma (get_or prospect_data ''salary_min'' (VInt 0))) \<and>
      \<not> isl (fmt_comma (get_or prospect_data ''salary_max'' (VInt 0))) \<and>
      list_all (\<lambda>sector. is_str (get sector ''sector'') \<and>
        \<not> isl (fmt_comma (get_or sector ''average_salary'' (VInt 0)))) market_context"
  proof -
    from h obtain lo hi where
      "fmt_comma (get_or prospect_data ''salary_min'' (VInt 0)) = Inr lo"
      "fmt_comma (get_or prospect_data ''salary_max'' (VInt 0)) = Inr hi"
      using fmt_comma_ok by blast
    then obtain header where p: "prospect_block prospect_data = Inr header"
      by (simp add: prospect_block_def)
    from h add_market_context_total [of prospect_data market_context header]
    obtain out where "add_market_context prospect_data market_context header = Inr out"
      by blast
    with p show ?thesis by (simp add: build_context_def)
  qed
  from form total show ?thesis by blast
qed


theorem context_matches_sector_rows_witness:
  "build_context (to_dict sample_prospects ! 0) (to_dict sample_market) = Inr sample_context
   \<and> list_all (\<lambda>sector. is_str (get sector ''sector'')) (to_dict sample_market)
   \<and> filter (\<lambda>sector. sublist (str_of (get sector ''sector''))
                (str_of (get_or (to_dict sample_prospects ! 0) ''industry'' (VStr []))))
         (to_dict sample_market) = [to_dict sample_market ! 0, to_dict sample_market ! 2]
   \<and> is_str (get_or (to_dict sample_prospects ! 0) ''industry'' (VStr []))
   \<and> \<not> isl (fmt_comma (get_or (to_dict sample_prospects ! 0) ''salary_min'' (VInt 0)))
   \<and> \<not> isl (fmt_comma (get_or (to_dict sample_prospects ! 0) ''salary_max'' (VInt 0)))
   \<and> list_all (\<lambda>sector. is_str (get sector ''sector'') \<and>
        \<not> isl (fmt_comma (get_or sector ''average_salary'' (VInt 0)))) (to_dict sample_market)"
  using context_matches_sector_rows [of "to_dict sample_prospects ! 0" "to_dict sample_market"
    sample_context]
  by (simp add: eval_simps show_simps get_def build_context_def prospect_block_def
    sector_block_def sample_context_def)

text \<open>
  C1 as stated fails: the context block is built before the \<^verbatim>\<open>try\<close>, and for a market
  row with an empty sector cell the substring test raises TypeError, which
  \<^verbatim>\<open>generate_report\<close> passes on to its caller.
\<close>

theorem generate_report_raises_on_blank_sector:
  "fst (generate_report sample_env weekly_prompt (to_dict sample_prospects ! 0)
          blank_sector_market empty_world) =
   Inl (Exc ''TypeError''
     (quoted ''in <string>'' @ '' requires string as left operand, not float''))"
  by (simp add: generate_report_def build_context_def prospect_block_def eval_simps
    show_simps get_def blank_sector_market_def)

text \<open>
  C1, amended. \<^verbatim>\<open>generate_report\<close> raises exactly when building the context block
  raises, before any request is made. Whenever the context block is built it returns a
  string: the generated text when the request succeeds, and \<open>Error generating report: \<close>
  followed by the error's message when the request or the read of its answer raises.
\<close>

theorem generate_report_catches_api_errors:
  "(build_context prospect_data market_context = Inr ctx \<longrightarrow>
      fst (generate_report env prompt prospect_data market_context w) =
        Inr (case first_text (api env (api_calls w) (prompt @ ''\<newline>\<newline>'' @ ctx)) of
               Inl e \<Rightarrow> ''Error generating report: '' @ exc_msg e
             | Inr text \<Rightarrow> text))
   \<and> (build_context prospect_data market_context = Inl err \<longrightarrow>
      generate_report env prompt prospect_data market_context w = (Inl err, w))"
  by (simp add: generate_report_def Let_def split: sum.splits)

theorem generate_report_catches_api_errors_witness:
  "build_context (to_dict sample_prospects ! 0) (to_dict sample_market) = Inr sample_context
   \<and> fst (generate_report unreachable_api_env weekly_prompt (to_dict sample_prospects ! 0)
            (to_dict sample_market) empty_world) =
       Inr ''Error generating report: Connection error.''
   \<and> build_context (to_dict sample_prospects ! 0) blank_sector_market =
       Inl (Exc ''TypeError''
         (quoted ''in <string>'' @ '' requires string as left operand, not float''))
   \<and> generate_report unreachable_api_env weekly_prompt (to_dict sample_prospects ! 0)
         blank_sector_market empty_world =
       (Inl (Exc ''TypeError''
          (quoted ''in <string>'' @ '' requires string as left operand, not float'')),
        empty_world)"
  using
    generate_report_catches_api_errors [of "to_dict sample_prospects ! 0"
      "to_dict sample_market" sample_context unreachable_api_env weekly_prompt empty_world]
    generate_report_catches_api_errors [of "to_dict sample_prospects ! 0"
      blank_sector_market _ unreachable_api_env weekly_prompt empty_world
      "Exc ''TypeError''
         (quoted ''in <string>'' @ '' requires string as left operand, not float'')"]
  by (simp add: eval_simps show_simps get_def build_context_def prospect_block_def
    sector_block_def sample_context_def blank_sector_market_def unreachable_api_env_def
    sample_env_def)

section \<open>The readers\<close>

text \<open>
  C8. \<^verbatim>\<open>get_prospects\<close> and \<^verbatim>\<open>get_market_data\<close> return a list for every input and
  state. When reading the file raises, or when the sort of the prospects raises, the list
  is empty and the state differs only by one ERROR entry at the end of the log, which
  carries the error's message.
\<close>

theorem readers_never_raise:
  "(\<exists>records. fst (get_prospects env limit w) = Inr records)
   \<and> (\<exists>records. fst (get_market_data env w) = Inr records)
   \<and> (prospects_try env limit = Inl e \<longrightarrow>
        get_prospects env limit w =
          (Inr [], w\<lparr>log := log w @ [(ERROR, ''Error reading prospects CSV: '' @ exc_msg e)]\<rparr>))
   \<and> (read_prospects env = Inl e \<longrightarrow> prospects_try env limit = Inl e)
   \<and> (read_market env = Inl e \<longrightarrow>
        get_market_data env w =
          (Inr [], w\<lparr>log := log w @ [(ERROR, ''Error reading market data CSV: '' @ exc_msg e)]\<rparr>))"
  by (auto simp: get_prospects_def get_market_data_def prospects_try_def market_try_def
    log_error_def split: sum.splits)

theorem readers_never_raise_witness:
  "read_prospects missing_files_env = Inl (Exc ''FileNotFoundError'' ''No such file or directory'')
   \<and> prospects_try missing_files_env 10 =
       Inl (Exc ''FileNotFoundError'' ''No such file or directory'')
   \<and> get_prospects missing_files_env 10 empty_world =
       (Inr [], empty_world\<lparr>log :=
          [(ERROR, ''Error reading prospects CSV: No such file or directory'')]\<rparr>)
   \<and> read_market missing_files_env = Inl (Exc ''EmptyDataError'' ''No columns to parse from file'')
   \<and> get_market_data missing_files_env empty_world =
       (Inr [], empty_world\<lparr>log :=
          [(ERROR, ''Error reading market data CSV: No columns to parse from file'')]\<rparr>)"
  using
    readers_never_raise [of missing_files_env 10 empty_world
      "Exc ''FileNotFoundError'' ''No such file or directory''"]
    readers_never_raise [of missing_files_env 10 empty_world
      "Exc ''EmptyDataError'' ''No columns to parse from file''"]
  by (simp add: missing_files_env_def sample_env_def empty_world_def)

section \<open>Order of the prospects\<close>

lemma descending_sort_key:
  fixes g :: "'a \<Rightarrow> 'b::linorder"
  shows "sorted_wrt (\<lambda>x y. g y \<le> g x) (rev (sort_key g xs))"
proof -
  have "sorted (map g (sort_key g xs))" by (rule sorted_sort_key)
  then have "sorted_wrt (\<lambda>x y. g x \<le> g y) (sort_key g xs)"
    by (simp add: sorted_wrt_map)
  then show ?thesis by (simp add: sorted_wrt_rev)
qed

lemma is_num_not_others: "is_num v \<Longrightarrow> \<not> is_na v \<and> \<not> is_str v"
  by (cases v) auto

lemma is_str_not_others: "is_str v \<Longrightarrow> \<not> is_na v \<and> \<not> is_num v"
  by (cases v) auto

lemma is_na_not_others: "is_na v \<Longrightarrow> \<not> is_num v \<and> \<not> is_str v"
  by (cases v) auto

lemma score_order_append_na:
  assumes s: "sorted_wrt (\<lambda>x y. score_order (k x) (k y)) xs"
    and p: "\<forall>x\<in>set xs. \<not> is_na (k x)"
    and n: "\<forall>y\<in>set ys. is_na (k y)"
  shows "sorted_wrt (\<lambda>x y. score_order (k x) (k y)) (xs @ ys)"
proof -
  have "sorted_wrt (\<lambda>x y. score_order (k x) (k y)) ys"
  proof (rule sorted_wrt_mono_rel [where P = "\<lambda>x y. True"])
    show "sorted_wrt (\<lambda>x y. True) ys" by simp
  next
    fix x y
    assume "x \<in> set ys" "y \<in> set ys"
    with n is_na_not_others [of "k x"] is_na_not_others [of "k y"]
    show "score_order (k x) (k y)" by (simp add: score_order_def)
  qed
  moreover have "\<forall>x\<in>set xs. \<forall>y\<in>set ys. score_order (k x) (k y)"
    using p n is_na_not_others by (auto simp: score_order_def)
  ultimately show ?thesis using s by (simp add: sorted_wrt_append)
qed

lemma score_order_nums:
  assumes "\<forall>x\<in>set xs. is_num (k x)"
  shows "sorted_wrt (\<lambda>x y. score_order (k x) (k y))
           (rev (sort_key (\<lambda>x. num_of (k x)) (rev xs)))"
proof (rule sorted_wrt_mono_rel [OF _ descending_sort_key [of "\<lambda>x. num_of (k x)" "rev xs"]])
  fix x y
  assume "x \<in> set (rev (sort_key (\<lambda>x. num_of (k x)) (rev xs)))"
    "y \<in> set (rev (sort_key (\<lambda>x. num_of (k x)) (rev xs)))"
    "num_of (k y) \<le> num_of (k x)"
  with assms is_num_not_others [of "k x"] is_num_not_others [of "k y"]
  show "score_order (k x) (k y)" by (simp add: score_order_def)
qed

lemma score_order_strs:
  assumes "\<forall>x\<in>set xs. is_str (k x)"
  shows "sorted_wrt (\<lambda>x y. score_order (k x) (k y))
           (rev (sort_key (\<lambda>x. str_of (k x)) (rev xs)))"
proof (rule sorted_wrt_mono_rel [OF _ descending_sort_key [of "\<lambda>x. str_of (k x)" "rev xs"]])
  fix x y
  assume "x \<in> set (rev (sort_key (\<lambda>x. str_of (k x)) (rev xs)))"
    "y \<in> set (rev (sort_key (\<lambda>x. str_of (k x)) (rev xs)))"
    "str_of (k y) \<le> str_of (k x)"
  with assms is_str_not_others [of "k x"] is_str_not_others [of "k y"]
  show "score_order (k x) (k y)" by (simp add: score_order_def)
qed

lemma sort_values_desc_order:
  assumes "sort_values_desc col df = Inr df'"
  shows "columns df' = columns df \<and>
         sorted_wrt (\<lambda>x y. score_order (cell df col x) (cell df col y)) (cells df')"
proof -
  let ?k = "cell df col"
  let ?na = "filter (\<lambda>cs. is_na (?k cs)) (cells df)"
  let ?present = "filter (\<lambda>cs. \<not> is_na (?k cs)) (cells df)"
  have n: "\<forall>y\<in>set ?na. is_na (?k y)" by simp
  show ?thesis
  proof (cases "list_all (\<lambda>cs. is_num (?k cs)) ?present")
    case True
    then have a: "\<forall>x\<in>set ?present. is_num (?k x)" by (simp add: list_all_iff)
    have p: "\<forall>x\<in>set (rev (sort_key (\<lambda>x. num_of (?k x)) (rev ?present))). \<not> is_na (?k x)"
      by simp
    from assms True have "df' =
        df\<lparr>cells := rev (sort_key (\<lambda>cs. num_of (?k cs)) (rev ?present)) @ ?na\<rparr>"
      by (auto simp: sort_values_desc_def Let_def split: if_splits)
    with score_order_append_na [OF score_order_nums [OF a] p n] show ?thesis by simp
  next
    case False
    with assms have t: "list_all (\<lambda>cs. is_str (?k cs)) ?present"
      by (auto simp: sort_values_desc_def Let_def split: if_splits)
    then have a: "\<forall>x\<in>set ?present. is_str (?k x)" by (simp add: list_all_iff)
    have p: "\<forall>x\<in>set (rev (sort_key (\<lambda>x. str_of (?k x)) (rev ?present))). \<not> is_na (?k x)"
      by simp
    from assms False t have "df' =
        df\<lparr>cells := rev (sort_key (\<lambda>cs. str_of (?k cs)) (rev ?present)) @ ?na\<rparr>"
      by (auto simp: sort_values_desc_def Let_def split: if_splits)
    with score_order_append_na [OF score_order_strs [OF a] p n] show ?thesis by simp
  qed
qed

lemma prospects_try_order:
  assumes "prospects_try env limit = Inr prospects"
  shows "sorted_wrt (\<lambda>p q. score_order (tier_score p) (tier_score q)) prospects"
proof -
  from assms obtain df df' where
    s: "sort_values_desc ''tier_score'' df = Inr df'" and
    r: "prospects = to_dict (head limit df')"
    by (auto simp: prospects_try_def split: sum.splits)
  from sort_values_desc_order [OF s] have
    c: "columns df' = columns df" and
    o: "sorted_wrt (\<lambda>x y. score_order (cell df ''tier_score'' x) (cell df ''tier_score'' y))
          (cells df')"
    by simp_all
  from o have "sorted_wrt (\<lambda>x y. score_order (cell df ''tier_score'' x) (cell df ''tier_score'' y))
      (take (nat (if 0 \<le> limit then limit else int (length (cells df')) + limit)) (cells df'))"
    by (rule sorted_wrt_take)
  with c r show ?thesis
    by (simp add: to_dict_def head_def sorted_wrt_map tier_score_def cell_def)
qed

section \<open>Lengths\<close>

lemma head_length: "0 \<le> n \<Longrightarrow> length (cells (head n df)) \<le> nat n"
  by (simp add: head_def)

lemma get_prospects_length:
  "0 \<le> limit \<Longrightarrow> fst (get_prospects env limit w) = Inr prospects \<Longrightarrow>
   length prospects \<le> nat limit"
  by (auto simp: get_prospects_def prospects_try_def to_dict_def head_def
    split: sum.splits)

section \<open>The analytics file\<close>

lemma save_report_metadata_writable:
  assumes "writable env (metadata_file env)"
  shows "save_report_metadata env report_data w =
    (Inr (),
     w\<lparr>fs := (fs w)(metadata_file env \<mapsto>
            (case fs w (metadata_file env) of
               None \<Rightarrow> writerow metadata_header
             | Some c \<Rightarrow> c)
            @ writerow (metadata_row (isoformat env (clk env (ticks w))) report_data)),
       ticks := Suc (ticks w)\<rparr>)"
  using assms
  by (cases "fs w (metadata_file env)")
    (simp_all add: save_report_metadata_def create_headers_def open_w_def open_a_def
      write_file_def now_def)

lemma save_report_metadata_not_writable:
  assumes "\<not> writable env (metadata_file env)"
  shows "snd (save_report_metadata env report_data w) = w \<and>
         isl (fst (save_report_metadata env report_data w))"
  using assms
  by (cases "fs w (metadata_file env)")
    (simp_all add: save_report_metadata_def create_headers_def open_w_def open_a_def)



section \<open>The weekly batch\<close>

lemma fs_log_info [simp]: "fs (log_info m w) = fs w"
  by (simp add: log_info_def)

lemma fs_log_error [simp]: "fs (log_error m w) = fs w"
  by (simp add: log_error_def)

lemma fs_now [simp]: "fs (snd (now env w)) = fs w"
  by (simp add: now_def)

lemma fs_generate_report [simp]:
  "fs (snd (generate_report env prompt prospect_data market_context w)) = fs w"
  by (simp add: generate_report_def Let_def split: sum.splits)

lemma fs_write_file:
  "fs (write_file p s w) = (fs w)(p \<mapsto> (case fs w p of None \<Rightarrow> [] | Some c \<Rightarrow> c) @ s)"
  by (simp add: write_file_def)

lemma fs_save_report_metadata_other:
  "p \<noteq> metadata_file env \<Longrightarrow> fs (snd (save_report_metadata env report_data w)) p = fs w p"
  by (cases "writable env (metadata_file env)")
    (simp_all add: save_report_metadata_writable save_report_metadata_not_writable)

lemma fs_save_report_metadata_keeps:
  "fs w p \<noteq> None \<Longrightarrow> fs (snd (save_report_metadata env report_data w)) p \<noteq> None"
  by (cases "writable env (metadata_file env)")
    (simp_all add: save_report_metadata_writable save_report_metadata_not_writable)

lemma save_report_metadata_fs:
  "save_report_metadata env report_data w = (r, w') \<Longrightarrow>
   (\<forall>p. p \<noteq> metadata_file env \<longrightarrow> fs w' p = fs w p) \<and>
   (\<forall>p. fs w p \<noteq> None \<longrightarrow> fs w' p \<noteq> None)"
  using fs_save_report_metadata_other [of _ env report_data w]
    fs_save_report_metadata_keeps [of w _ env report_data]
  by auto

lemma generate_report_fs:
  "generate_report env prompt prospect_data market_context w = (r, w') \<Longrightarrow> fs w' = fs w"
  using fs_generate_report [of env prompt prospect_data market_context w] by simp

text \<open>What one \<^verbatim>\<open>try\<close> does to the list of report files and to the files: nothing,
  or one report written and its path appended.\<close>

lemma weekly_try_effect:
  "(isl (fst (weekly_try env start_time market_data len i prospect (report_files, w))) \<and>
    fst (snd (weekly_try env start_time market_data len i prospect (report_files, w))) =
      report_files \<and>
    fs (snd (snd (weekly_try env start_time market_data len i prospect (report_files, w)))) =
      fs w)
   \<or> (\<exists>path.
      fst (snd (weekly_try env start_time market_data len i prospect (report_files, w))) =
        report_files @ [path] \<and>
      fs (snd (snd (weekly_try env start_time market_data len i prospect (report_files, w))))
        path \<noteq> None \<and>
      (\<forall>q. q \<noteq> path \<and> q \<noteq> metadata_file env \<longrightarrow>
        fs (snd (snd (weekly_try env start_time market_data len i prospect (report_files, w))))
          q = fs w q) \<and>
      (\<forall>q. fs w q \<noteq> None \<longrightarrow>
        fs (snd (snd (weekly_try env start_time market_data len i prospect (report_files, w))))
          q \<noteq> None))"
  by (auto simp: weekly_try_def Let_def now_def open_w_def fs_write_file
    split: prod.splits sum.splits if_splits
    dest!: save_report_metadata_fs generate_report_fs)

lemma weekly_iteration_returns:
  "fst (weekly_iteration env start_time market_data len i prospect st) = Inr ()"
  by (simp add: weekly_iteration_def split: prod.splits sum.splits)

lemma weekly_iteration_handler:
  "weekly_try env start_time market_data len i prospect st = (Inl e, (report_files, w)) \<Longrightarrow>
   weekly_iteration env start_time market_data len i prospect st =
     (Inr (), (report_files,
        log_error (''Error processing prospect '' @ py_str (get prospect ''company_name'')
                     @ '': '' @ exc_msg e) w))"
  by (simp add: weekly_iteration_def)

lemma weekly_iteration_effect:
  "(fst (snd (weekly_iteration env start_time market_data len i prospect (report_files, w))) =
      report_files \<and>
    fs (snd (snd (weekly_iteration env start_time market_data len i prospect
      (report_files, w)))) = fs w)
   \<or> (\<exists>path.
      fst (snd (weekly_iteration env start_time market_data len i prospect (report_files, w))) =
        report_files @ [path] \<and>
      fs (snd (snd (weekly_iteration env start_time market_data len i prospect
        (report_files, w)))) path \<noteq> None \<and>
      (\<forall>q. q \<noteq> path \<and> q \<noteq> metadata_file env \<longrightarrow>
        fs (snd (snd (weekly_iteration env start_time market_data len i prospect
          (report_files, w)))) q = fs w q) \<and>
      (\<forall>q. fs w q \<noteq> None \<longrightarrow>
        fs (snd (snd (weekly_iteration env start_time market_data len i prospect
          (report_files, w)))) q \<noteq> None))"
proof -
  obtain r files' w' where
    t: "weekly_try env start_time market_data len i prospect (report_files, w) = (r, (files', w'))"
    by (metis prod.exhaust)
  have f: "fst (snd (weekly_iteration env start_time market_data len i prospect
      (report_files, w))) = files'"
    using t by (simp add: weekly_iteration_def split: sum.splits)
  have g: "fs (snd (snd (weekly_iteration env start_time market_data len i prospect
      (report_files, w)))) = fs w'"
    using t by (simp add: weekly_iteration_def split: sum.splits)
  from weekly_try_effect [of env start_time market_data len i prospect report_files w]
  show ?thesis unfolding f g t by auto
qed

lemma weekly_loop_fold:
  "weekly_loop env start_time market_data len prospects st =
     (Inr (),
      foldl (\<lambda>st ip. snd (weekly_iteration env start_time market_data len (fst ip) (snd ip) st))
        st prospects)"
proof (induction prospects arbitrary: st)
  case Nil
  then show ?case by simp
next
  case (Cons ip rest)
  obtain i prospect where ip: "ip = (i, prospect)" by (cases ip)
  obtain st' where
    s: "weekly_iteration env start_time market_data len i prospect st = (Inr (), st')"
    using weekly_iteration_returns [of env start_time market_data len i prospect st]
    by (cases "weekly_iteration env start_time market_data len i prospect st") auto
  with Cons.IH [of st'] ip show ?case by simp
qed

lemma weekly_loop_effect:
  "\<exists>new.
     fst (snd (weekly_loop env start_time market_data len prospects (report_files, w))) =
       report_files @ new \<and>
     length new \<le> length prospects \<and>
     (\<forall>p\<in>set new.
        fs (snd (snd (weekly_loop env start_time market_data len prospects (report_files, w))))
          p \<noteq> None) \<and>
     (\<forall>q. q \<notin> set new \<and> q \<noteq> metadata_file env \<longrightarrow>
        fs (snd (snd (weekly_loop env start_time market_data len prospects (report_files, w))))
          q = fs w q) \<and>
     (\<forall>q. fs w q \<noteq> None \<longrightarrow>
        fs (snd (snd (weekly_loop env start_time market_data len prospects (report_files, w))))
          q \<noteq> None)"
proof (induction prospects arbitrary: report_files w)
  case Nil
  show ?case by (rule exI [of _ "[]"]) simp
next
  case (Cons ip rest)
  obtain i prospect where ip: "ip = (i, prospect)" by (cases ip)
  obtain files1 w1 where
    s: "weekly_iteration env start_time market_data len i prospect (report_files, w) =
          (Inr (), (files1, w1))"
    using weekly_iteration_returns [of env start_time market_data len i prospect
      "(report_files, w)"]
    by (cases "weekly_iteration env start_time market_data len i prospect (report_files, w)")
      auto
  let ?end = "weekly_loop env start_time market_data len rest (files1, w1)"
  have l: "weekly_loop env start_time market_data len (ip # rest) (report_files, w) = ?end"
    using s ip by simp
  from Cons.IH [of files1 w1] obtain new where
    n1: "fst (snd ?end) = files1 @ new" and
    n2: "length new \<le> length rest" and
    n3: "\<forall>p\<in>set new. fs (snd (snd ?end)) p \<noteq> None" and
    n4: "\<forall>q. q \<notin> set new \<and> q \<noteq> metadata_file env \<longrightarrow> fs (snd (snd ?end)) q = fs w1 q" and
    n5: "\<forall>q. fs w1 q \<noteq> None \<longrightarrow> fs (snd (snd ?end)) q \<noteq> None"
    by blast
  from weekly_iteration_effect [of env start_time market_data len i prospect report_files w]
  have "(files1 = report_files \<and> fs w1 = fs w)
     \<or> (\<exists>path. files1 = report_files @ [path] \<and> fs w1 path \<noteq> None \<and>
          (\<forall>q. q \<noteq> path \<and> q \<noteq> metadata_file env \<longrightarrow> fs w1 q = fs w q) \<and>
          (\<forall>q. fs w q \<noteq> None \<longrightarrow> fs w1 q \<noteq> None))"
    unfolding s by simp
  then show ?case
  proof
    assume a: "files1 = report_files \<and> fs w1 = fs w"
    show ?thesis unfolding l
      by (rule exI [of _ new]) (use a n1 n2 n3 n4 n5 in auto)
  next
    assume "\<exists>path. files1 = report_files @ [path] \<and> fs w1 path \<noteq> None \<and>
          (\<forall>q. q \<noteq> path \<and> q \<noteq> metadata_file env \<longrightarrow> fs w1 q = fs w q) \<and>
          (\<forall>q. fs w q \<noteq> None \<longrightarrow> fs w1 q \<noteq> None)"
    then obtain path where
      b1: "files1 = report_files @ [path]" and
      b2: "fs w1 path \<noteq> None" and
      b3: "\<forall>q. q \<noteq> path \<and> q \<noteq> metadata_file env \<longrightarrow> fs w1 q = fs w q" and
      b4: "\<forall>q. fs w q \<noteq> None \<longrightarrow> fs w1 q \<noteq> None"
      by blast
    show ?thesis unfolding l
    proof (rule exI [of _ "path # new"], intro conjI)
      show "fst (snd ?end) = report_files @ path # new" using n1 b1 by simp
      show "length (path # new) \<le> length (ip # rest)" using n2 by simp
      show "\<forall>p\<in>set (path # new). fs (snd (snd ?end)) p \<noteq> None" using n3 n5 b2 by auto
      show "\<forall>q. q \<notin> set (path # new) \<and> q \<noteq> metadata_file env \<longrightarrow>
          fs (snd (snd ?end)) q = fs w q"
        using n4 b3 by auto
      show "\<forall>q. fs w q \<noteq> None \<longrightarrow> fs (snd (snd ?end)) q \<noteq> None" using n5 b4 by auto
    qed
  qed
qed

lemma get_prospects_fs:
  "\<exists>prospects w'. get_prospects env limit w = (Inr prospects, w') \<and> fs w' = fs w"
  by (simp add: get_prospects_def split: sum.splits)

lemma get_market_data_fs:
  "\<exists>market_data w'. get_market_data env w = (Inr market_data, w') \<and> fs w' = fs w"
  by (simp add: get_market_data_def split: sum.splits)

lemma fst_get_prospects:
  "fst (get_prospects env limit w) = fst (get_prospects env limit w')"
  by (simp add: get_prospects_def split: sum.splits)

lemma enumerate1_length [simp]: "length (enumerate1 xs) = length xs"
  by (simp only: enumerate1_def length_zip length_upt diff_Suc_1 min.idem)

lemma generate_weekly_reports_effect:
  "\<exists>paths prospects.
     fst (generate_weekly_reports env prospects_count w) = Inr paths \<and>
     fst (get_prospects env prospects_count w) = Inr prospects \<and>
     length paths \<le> length prospects \<and>
     (\<forall>p\<in>set paths. fs (snd (generate_weekly_reports env prospects_count w)) p \<noteq> None) \<and>
     (\<forall>q. q \<notin> set paths \<and> q \<noteq> metadata_file env \<longrightarrow>
        fs (snd (generate_weekly_reports env prospects_count w)) q = fs w q) \<and>
     (\<forall>q. fs w q \<noteq> None \<longrightarrow>
        fs (snd (generate_weekly_reports env prospects_count w)) q \<noteq> None)"
proof -
  obtain start_time w0 where n: "now env w = (start_time, w0)" by (cases "now env w")
  then have f0: "fs w0 = fs w" using fs_now [of env w] by simp
  let ?w1 = "log_info (''Generating weekly reports for top '' @ show_int prospects_count
                   @ '' prospects'') w0"
  obtain prospects w2 where
    p: "get_prospects env prospects_count ?w1 = (Inr prospects, w2)" and f2: "fs w2 = fs ?w1"
    using get_prospects_fs by blast
  obtain market_data w3 where
    m: "get_market_data env w2 = (Inr market_data, w3)" and f3: "fs w3 = fs w2"
    using get_market_data_fs by blast
  let ?loop = "weekly_loop env start_time market_data (length prospects)
                 (enumerate1 prospects) ([], w3)"
  define final where "final =
    foldl (\<lambda>st ip. snd (weekly_iteration env start_time market_data (length prospects)
             (fst ip) (snd ip) st)) ([], w3) (enumerate1 prospects)"
  obtain report_files w4 where fin: "final = (report_files, w4)" by (cases final)
  have l: "?loop = (Inr (), (report_files, w4))"
    using fin by (simp add: final_def weekly_loop_fold)
  obtain t w5 where n5: "now env w4 = (t, w5)" by (cases "now env w4")
  then have f5: "fs w5 = fs w4" using fs_now [of env w4] by simp
  have r: "fst (generate_weekly_reports env prospects_count w) = Inr report_files"
    using n p m l n5 by (simp add: generate_weekly_reports_def Let_def)
  have e: "fs (snd (generate_weekly_reports env prospects_count w)) = fs w4"
    using n p m l n5 f5 by (simp add: generate_weekly_reports_def Let_def)
  have ps: "fst (get_prospects env prospects_count w) = Inr prospects"
    using p fst_get_prospects [of env prospects_count w ?w1] by simp
  from weekly_loop_effect [of env start_time market_data "length prospects"
    "enumerate1 prospects" "[]" w3]
  obtain new where
    k1: "fst (snd ?loop) = [] @ new" and
    k2: "length new \<le> length (enumerate1 prospects)" and
    k3: "\<forall>p\<in>set new. fs (snd (snd ?loop)) p \<noteq> None" and
    k4: "\<forall>q. q \<notin> set new \<and> q \<noteq> metadata_file env \<longrightarrow> fs (snd (snd ?loop)) q = fs w3 q" and
    k5: "\<forall>q. fs w3 q \<noteq> None \<longrightarrow> fs (snd (snd ?loop)) q \<noteq> None"
    by blast
  from k1 have nw: "new = report_files" unfolding l by simp
  have w3: "fs w3 = fs w" using f0 f2 f3 by simp
  show ?thesis
  proof (intro exI [of _ report_files] exI [of _ prospects] conjI)
    show "fst (generate_weekly_reports env prospects_count w) = Inr report_files" by (rule r)
    show "fst (get_prospects env prospects_count w) = Inr prospects" by (rule ps)
    show "length report_files \<le> length prospects" using k2 nw by simp
    show "\<forall>p\<in>set report_files.
        fs (snd (generate_weekly_reports env prospects_count w)) p \<noteq> None"
      using k3 unfolding e l nw by simp
    show "\<forall>q. q \<notin> set report_files \<and> q \<noteq> metadata_file env \<longrightarrow>
        fs (snd (generate_weekly_reports env prospects_count w)) q = fs w q"
      using k4 unfolding e l nw w3 by simp
    show "\<forall>q. fs w q \<noteq> None \<longrightarrow>
        fs (snd (generate_weekly_reports env prospects_count w)) q \<noteq> None"
      using k5 unfolding e l nw w3 by simp
  qed
qed

section \<open>Evaluation of whole runs\<close>

lemma small_env_fields:
  "read_prospects small_env = Inr two_prospects"
  "read_market small_env = Inr no_market"
  "output_dir small_env = ''o''"
  "writable small_env p = True"
  "api small_env k q = Inr [''report'']"
  "clk small_env k = k"
  "strftime small_env f t = ''D''"
  "isoformat small_env t = ''T''"
  "total_seconds small_env a b = ''1.5''"
  "total_seconds_2f small_env a b = ''1.50''"
  by (simp_all add: small_env_def sample_env_def)

lemma blank_name_env_fields:
  "read_prospects blank_name_env = Inr blank_name_prospects"
  "read_market blank_name_env = Inr no_market"
  "output_dir blank_name_env = ''o''"
  "writable blank_name_env p = True"
  "api blank_name_env k q = Inr [''report'']"
  "clk blank_name_env k = k"
  "strftime blank_name_env f t = ''D''"
  "isoformat blank_name_env t = ''T''"
  "total_seconds blank_name_env a b = ''1.5''"
  "total_seconds_2f blank_name_env a b = ''1.50''"
  by (simp_all add: blank_name_env_def small_env_def sample_env_def)

lemmas run_simps = generate_weekly_reports_def weekly_loop.simps weekly_iteration_def
  weekly_try_def generate_report_def build_context_def prospect_block_def sector_block_def
  save_report_metadata_def create_headers_def open_w_def open_a_def write_file_def now_def
  log_info_def log_error_def get_prospects_def prospects_try_def get_market_data_def
  market_try_def sort_values_desc_def head_def to_dict_def cell_def get_def get_or_def
  enumerate1_def path_join_def weekly_filename_def weekly_metadata_def metadata_file_def
  metadata_row_def metadata_header_def writerow_def csv_field_def csv_special_def csv_text_def
  dquote_def replace_spaces_def show_simps empty_world_def Let_def

section \<open>Results of the weekly batch\<close>

text \<open>
  C6 as stated fails for a negative limit: \<^verbatim>\<open>df.head(-1)\<close> keeps all rows but the last,
  so the batch run with the limit -1 on two prospects writes and returns one path, which
  is more than -1.
\<close>

theorem negative_limit_returns_a_path:
  "fst (generate_weekly_reports small_env (- 1) empty_world) = Inr [ab_path]
   \<and> - 1 \<le> int (length (cells two_prospects))
   \<and> \<not> int (length [ab_path]) \<le> - 1"
  by (simp add: run_simps small_env_fields two_prospects_def no_market_def ab_path_def)

text \<open>
  C6, amended. The weekly batch returns a list of paths for every limit and state; for a
  limit N that is not negative the list has at most N paths; and each returned path
  names a file that exists in the state the batch leaves.
\<close>

theorem weekly_returns_existing_files:
  "\<exists>paths.
     fst (generate_weekly_reports env prospects_count w) = Inr paths \<and>
     (0 \<le> prospects_count \<longrightarrow> int (length paths) \<le> prospects_count) \<and>
     list_all (\<lambda>p. fs (snd (generate_weekly_reports env prospects_count w)) p \<noteq> None) paths"
proof -
  from generate_weekly_reports_effect [of env prospects_count w]
  obtain paths prospects where
    r: "fst (generate_weekly_reports env prospects_count w) = Inr paths" and
    p: "fst (get_prospects env prospects_count w) = Inr prospects" and
    l: "length paths \<le> length prospects" and
    e: "\<forall>p\<in>set paths. fs (snd (generate_weekly_reports env prospects_count w)) p \<noteq> None"
    by blast
  have "int (length paths) \<le> prospects_count" if n: "0 \<le> prospects_count"
    using get_prospects_length [OF n p] l n by linarith
  with r e show ?thesis by (auto simp: list_all_iff)
qed

theorem weekly_returns_existing_files_witness:
  "(0::int) \<le> 1
   \<and> (\<exists>paths.
        fst (generate_weekly_reports small_env 1 empty_world) = Inr paths \<and>
        int (length paths) \<le> 1 \<and>
        list_all (\<lambda>p. fs (snd (generate_weekly_reports small_env 1 empty_world)) p \<noteq> None)
          paths)"
  using weekly_returns_existing_files [of small_env 1 empty_world] by simp

section \<open>Order of processing\<close>

lemma get_prospects_order:
  assumes "fst (get_prospects env limit w) = Inr prospects"
  shows "sorted_wrt (\<lambda>p q. score_order (tier_score p) (tier_score q)) prospects"
proof (cases "prospects_try env limit")
  case (Inl e)
  with assms show ?thesis by (simp add: get_prospects_def)
next
  case (Inr records)
  with assms have "prospects_try env limit = Inr prospects" by (simp add: get_prospects_def)
  then show ?thesis by (rule prospects_try_order)
qed

lemma enumerate1_snd: "map snd (enumerate1 xs) = xs"
proof -
  have "length [1..<Suc (length xs)] = length xs"
    by (simp only: length_upt diff_Suc_1)
  then show ?thesis by (simp only: enumerate1_def map_snd_zip)
qed

lemma generate_weekly_reports_loop:
  assumes "fst (get_prospects env prospects_count w) = Inr prospects"
  shows "\<exists>market_data w3.
     fst (generate_weekly_reports env prospects_count w) =
       Inr (fst (snd (weekly_loop env (clk env (ticks w)) market_data (length prospects)
                        (enumerate1 prospects) ([], w3))))"
proof -
  have n: "now env w = (clk env (ticks w), w\<lparr>ticks := Suc (ticks w)\<rparr>)"
    by (simp add: now_def)
  let ?w1 = "log_info (''Generating weekly reports for top '' @ show_int prospects_count
                   @ '' prospects'') (w\<lparr>ticks := Suc (ticks w)\<rparr>)"
  obtain ps w2 where p: "get_prospects env prospects_count ?w1 = (Inr ps, w2)"
    using get_prospects_fs by blast
  with assms fst_get_prospects [of env prospects_count w ?w1] have ps: "ps = prospects"
    by simp
  obtain market_data w3 where m: "get_market_data env w2 = (Inr market_data, w3)"
    using get_market_data_fs by blast
  let ?loop = "weekly_loop env (clk env (ticks w)) market_data (length prospects)
                 (enumerate1 prospects) ([], w3)"
  obtain st where l: "?loop = (Inr (), st)"
    using weekly_loop_fold [of env "clk env (ticks w)" market_data "length prospects"
      "enumerate1 prospects" "([], w3)"]
    by simp
  obtain report_files w4 where st: "st = (report_files, w4)" by (cases st)
  obtain t w5 where n5: "now env w4 = (t, w5)" by (cases "now env w4")
  have "fst (generate_weekly_reports env prospects_count w) = Inr (fst (snd ?loop))"
    using n p ps m l st n5 by (simp add: generate_weekly_reports_def Let_def)
  then show ?thesis by blast
qed

text \<open>
  C5 as stated fails: two of the sample prospects have the tier score 80, and they are
  the second and the third prospect the weekly batch takes.
\<close>

theorem equal_scores_processed_consecutively:
  "fst (get_prospects sample_env 3 empty_world) =
     Inr [to_dict sample_prospects ! 1, to_dict sample_prospects ! 0,
          to_dict sample_prospects ! 2]
   \<and> tier_score (to_dict sample_prospects ! 0) = VInt 80
   \<and> tier_score (to_dict sample_prospects ! 2) = VInt 80
   \<and> \<not> num_of (tier_score (to_dict sample_prospects ! 2))
         < num_of (tier_score (to_dict sample_prospects ! 0))"
  by (simp add: get_prospects_def prospects_try_def sort_values_desc_def cell_def get_def
    head_def tier_score_def sample_env_def sample_prospects_def to_dict_def)

text \<open>
  C5, amended. The weekly batch runs its loop over the prospects that \<^verbatim>\<open>get_prospects\<close>
  returns, numbered from 1 in the order of that list, and the list is in non-increasing
  order of tier score: of any two of its prospects the earlier has a score that is
  greater than or equal to the later one's, and prospects without a score come after
  all others.
\<close>

theorem prospects_in_descending_order:
  "fst (get_prospects env limit w) = Inr prospects \<Longrightarrow>
   sorted_wrt (\<lambda>p q. score_order (tier_score p) (tier_score q)) prospects
   \<and> map snd (enumerate1 prospects) = prospects
   \<and> (\<exists>market_data w3.
        fst (generate_weekly_reports env limit w) =
          Inr (fst (snd (weekly_loop env (clk env (ticks w)) market_data (length prospects)
                           (enumerate1 prospects) ([], w3)))))"
  using get_prospects_order [of env limit w prospects]
    generate_weekly_reports_loop [of env limit w prospects] enumerate1_snd [of prospects]
  by blast

theorem prospects_in_descending_order_witness:
  "fst (get_prospects sample_env 3 empty_world) =
     Inr [to_dict sample_prospects ! 1, to_dict sample_prospects ! 0,
          to_dict sample_prospects ! 2]
   \<and> sorted_wrt (\<lambda>p q. score_order (tier_score p) (tier_score q))
       [to_dict sample_prospects ! 1, to_dict sample_prospects ! 0,
        to_dict sample_prospects ! 2]
   \<and> map tier_score [to_dict sample_prospects ! 1, to_dict sample_prospects ! 0,
        to_dict sample_prospects ! 2] = [VInt 95, VInt 80, VInt 80]"
proof -
  have g: "fst (get_prospects sample_env 3 empty_world) =
     Inr [to_dict sample_prospects ! 1, to_dict sample_prospects ! 0,
          to_dict sample_prospects ! 2]"
    by (simp add: get_prospects_def prospects_try_def sort_values_desc_def cell_def get_def
      head_def sample_env_def sample_prospects_def to_dict_def)
  have t: "map tier_score [to_dict sample_prospects ! 1, to_dict sample_prospects ! 0,
        to_dict sample_prospects ! 2] = [VInt 95, VInt 80, VInt 80]"
    by (simp add: tier_score_def get_def sample_prospects_def to_dict_def)
  from prospects_in_descending_order [OF g] g t show ?thesis by blast
qed

section \<open>The monthly report\<close>

lemma filter_data_result:
  assumes "filter_data lower sector market_data prospects = Inr (market_data', prospects')"
  shows "market_data' =
           (if sector = ''all'' then market_data
            else filter (\<lambda>item. sublist (lower sector)
                           (lower (str_of (get_or item ''sector'' (VStr []))))) market_data)
         \<and> prospects' =
           (if sector = ''all'' then prospects
            else filter (\<lambda>item. sublist (lower sector)
                           (lower (str_of (get_or item ''industry'' (VStr []))))) prospects)
         \<and> (sector \<noteq> ''all'' \<longrightarrow>
              list_all (\<lambda>item. is_str (get_or item ''sector'' (VStr []))) market_data \<and>
              list_all (\<lambda>item. is_str (get_or item ''industry'' (VStr []))) prospects)"
proof (cases "sector = ''all''")
  case True
  with assms show ?thesis by (simp add: filter_data_def)
next
  case False
  with assms have
    m: "filter_sector lower sector ''sector'' market_data = Inr market_data'" and
    p: "filter_sector lower sector ''industry'' prospects = Inr prospects'"
    by (auto simp: filter_data_def split: sum.splits)
  from filter_sector_result [OF m] filter_sector_result [OF p] False show ?thesis by simp
qed

lemma monthly_data_steps:
  assumes "fst (monthly_data env sector w) = Inr (ctx, market_data')"
  shows "\<exists>market_data prospects prospects'.
     fst (get_market_data env w) = Inr market_data \<and>
     fst (get_prospects env 50 w) = Inr prospects \<and>
     filter_data (str_lower env) sector market_data prospects = Inr (market_data', prospects') \<and>
     aggregate_context sector prospects' market_data' = Inr ctx"
proof -
  obtain md w1 where m: "get_market_data env w = (Inr md, w1)"
    using get_market_data_fs by blast
  obtain ps w2 where p: "get_prospects env 50 w1 = (Inr ps, w2)"
    using get_prospects_fs by blast
  from assms m p obtain md' ps' where
    f: "filter_data (str_lower env) sector md ps = Inr (md', ps')"
    by (auto simp: monthly_data_def split: sum.splits)
  from assms m p f have a: "aggregate_context sector ps' md' = Inr ctx" and e: "md' = market_data'"
    by (auto simp: monthly_data_def split: sum.splits)
  from p fst_get_prospects [of env 50 w w1] have r: "fst (get_prospects env 50 w) = Inr ps"
    by simp
  from m r f a e show ?thesis by auto
qed

text \<open>
  C3. For every case mapping \<open>lower\<close> that \<^verbatim>\<open>str.lower\<close> may be: with the filter \<open>all\<close> the
  monthly report keeps every market row and every prospect. With any other filter,
  whenever the filtering returns, every market row has a string in its sector field (an
  absent field is the empty string) and the rows kept are, in their order, exactly those
  whose lower-cased sector field contains the lower-cased filter. The filtering returns
  whenever the sector and industry fields are strings. The market rows that the monthly
  report hands to the client are the rows of \<^verbatim>\<open>get_market_data\<close> filtered so, with the
  case mapping of the environment.
\<close>

theorem sector_filter_case_insensitive:
  "filter_data lower ''all'' market_data prospects = Inr (market_data, prospects)
   \<and> (sector \<noteq> ''all'' \<and>
      filter_data lower sector market_data prospects = Inr (market_data', prospects') \<longrightarrow>
      list_all (\<lambda>item. is_str (get_or item ''sector'' (VStr []))) market_data \<and>
      market_data' =
        filter (\<lambda>item. sublist (lower sector) (lower (str_of (get_or item ''sector'' (VStr [])))))
          market_data)
   \<and> (list_all (\<lambda>item. is_str (get_or item ''sector'' (VStr []))) market_data \<and>
      list_all (\<lambda>item. is_str (get_or item ''industry'' (VStr []))) prospects \<longrightarrow>
      (\<exists>kept. filter_data lower sector market_data prospects = Inr kept))
   \<and> (fst (monthly_data env sector w) = Inr (ctx, handed) \<longrightarrow>
      (\<exists>all_rows.
         fst (get_market_data env w) = Inr all_rows \<and>
         handed =
           (if sector = ''all'' then all_rows
            else filter (\<lambda>item. sublist (str_lower env sector)
                           (str_lower env (str_of (get_or item ''sector'' (VStr [])))))
                   all_rows)))"
proof -
  have all: "filter_data lower ''all'' market_data prospects = Inr (market_data, prospects)"
    by (simp add: filter_data_def)
  have kept: "list_all (\<lambda>item. is_str (get_or item ''sector'' (VStr []))) market_data \<and>
      market_data' =
        filter (\<lambda>item. sublist (lower sector) (lower (str_of (get_or item ''sector'' (VStr [])))))
          market_data"
    if h: "sector \<noteq> ''all'' \<and>
      filter_data lower sector market_data prospects = Inr (market_data', prospects')"
  proof -
    from h have "filter_data lower sector market_data prospects = Inr (market_data', prospects')"
      by simp
    from filter_data_result [OF this] h show ?thesis by simp
  qed
  have total: "\<exists>kept. filter_data lower sector market_data prospects = Inr kept"
    if h: "list_all (\<lambda>item. is_str (get_or item ''sector'' (VStr []))) market_data \<and>
      list_all (\<lambda>item. is_str (get_or item ''industry'' (VStr []))) prospects"
  proof -
    from h filter_sector_total [of "''sector''" market_data lower sector]
    obtain m where m: "filter_sector lower sector ''sector'' market_data = Inr m" by auto
    from h filter_sector_total [of "''industry''" prospects lower sector]
    obtain p where p: "filter_sector lower sector ''industry'' prospects = Inr p" by auto
    from m p show ?thesis by (simp add: filter_data_def)
  qed
  have report: "\<exists>all_rows.
         fst (get_market_data env w) = Inr all_rows \<and>
         handed =
           (if sector = ''all'' then all_rows
            else filter (\<lambda>item. sublist (str_lower env sector)
                           (str_lower env (str_of (get_or item ''sector'' (VStr [])))))
                   all_rows)"
    if h: "fst (monthly_data env sector w) = Inr (ctx, handed)"
  proof -
    from monthly_data_steps [OF h] obtain md ps ps' where
      m: "fst (get_market_data env w) = Inr md" and
      f: "filter_data (str_lower env) sector md ps = Inr (handed, ps')"
      by blast
    from filter_data_result [OF f] m show ?thesis by blast
  qed
  from all kept total report show ?thesis by blast
qed

theorem sector_filter_case_insensitive_witness:
  "''TECH'' \<noteq> ''all''
   \<and> filter_data ascii_lower ''TECH'' (to_dict sample_market) (to_dict sample_prospects) =
       Inr ([to_dict sample_market ! 0, to_dict sample_market ! 2, to_dict sample_market ! 3],
            [to_dict sample_prospects ! 0, to_dict sample_prospects ! 2])
   \<and> list_all (\<lambda>item. is_str (get_or item ''sector'' (VStr []))) (to_dict sample_market)
   \<and> list_all (\<lambda>item. is_str (get_or item ''industry'' (VStr []))) (to_dict sample_prospects)
   \<and> fst (monthly_data many_prospects_env ''tech'' empty_world) = Inr (tech_context, tech_market)
   \<and> fst (get_market_data many_prospects_env empty_world) = Inr (to_dict sample_market)
   \<and> tech_market =
       filter (\<lambda>item. sublist (str_lower many_prospects_env ''tech'')
                 (str_lower many_prospects_env (str_of (get_or item ''sector'' (VStr [])))))
         (to_dict sample_market)"
proof -
  have f: "filter_data ascii_lower ''TECH'' (to_dict sample_market) (to_dict sample_prospects) =
       Inr ([to_dict sample_market ! 0, to_dict sample_market ! 2, to_dict sample_market ! 3],
            [to_dict sample_prospects ! 0, to_dict sample_prospects ! 2])"
    by (simp add: eval_simps)
  have t: "list_all (\<lambda>item. is_str (get_or item ''sector'' (VStr []))) (to_dict sample_market)
     \<and> list_all (\<lambda>item. is_str (get_or item ''industry'' (VStr []))) (to_dict sample_prospects)"
    by (simp add: eval_simps)
  have m: "fst (monthly_data many_prospects_env ''tech'' empty_world) =
      Inr (tech_context, tech_market)"
    by code_simp
  have g: "fst (get_market_data many_prospects_env empty_world) = Inr (to_dict sample_market)"
    by code_simp
  have first: "''TECH'' \<noteq> ''all''" by simp
  from sector_filter_case_insensitive [of ascii_lower "[]" "[]" "''tech''" "[]" "[]"
    many_prospects_env empty_world tech_context tech_market] m g
  have handed: "tech_market =
       filter (\<lambda>item. sublist (str_lower many_prospects_env ''tech'')
                 (str_lower many_prospects_env (str_of (get_or item ''sector'' (VStr [])))))
         (to_dict sample_market)"
    by simp
  from first f t m g handed show ?thesis by (simp only: simp_thms)
qed

section \<open>The prospects of the monthly report\<close>

lemma sort_values_desc_mset:
  assumes "sort_values_desc col df = Inr df'"
  shows "mset (cells df') = mset (cells df)"
proof -
  let ?k = "cell df col"
  let ?na = "filter (\<lambda>cs. is_na (?k cs)) (cells df)"
  let ?present = "filter (\<lambda>cs. \<not> is_na (?k cs)) (cells df)"
  have parts: "mset ?present + mset ?na = mset (cells df)"
    by (induction "cells df") (simp_all add: multiset_partition [symmetric])
  from assms have "cells df' = rev (sort_key (\<lambda>cs. num_of (?k cs)) (rev ?present)) @ ?na
      \<or> cells df' = rev (sort_key (\<lambda>cs. str_of (?k cs)) (rev ?present)) @ ?na"
    by (auto simp: sort_values_desc_def Let_def split: if_splits)
  then have "mset (cells df') = mset ?present + mset ?na"
    by auto
  with parts show ?thesis by simp
qed

lemma prospects_try_ranked:
  assumes "prospects_try env limit = Inr prospects"
  shows "\<exists>df ranked.
     read_prospects env = Inr df \<and> mset ranked = mset (to_dict df) \<and>
     sorted_wrt (\<lambda>p q. score_order (tier_score p) (tier_score q)) ranked \<and>
     prospects = take (nat (if 0 \<le> limit then limit else int (length ranked) + limit)) ranked"
proof -
  from assms obtain df df' where
    r: "read_prospects env = Inr df" and
    s: "sort_values_desc ''tier_score'' df = Inr df'" and
    p: "prospects = to_dict (head limit df')"
    by (auto simp: prospects_try_def split: sum.splits)
  from sort_values_desc_order [OF s] have
    c: "columns df' = columns df" and
    o: "sorted_wrt (\<lambda>x y. score_order (cell df ''tier_score'' x) (cell df ''tier_score'' y))
          (cells df')"
    by simp_all
  have m: "mset (to_dict df') = mset (to_dict df)"
    using sort_values_desc_mset [OF s] c
    by (simp add: to_dict_def)
  have so: "sorted_wrt (\<lambda>p q. score_order (tier_score p) (tier_score q)) (to_dict df')"
    using o c by (simp add: to_dict_def sorted_wrt_map tier_score_def cell_def)
  have t: "prospects =
      take (nat (if 0 \<le> limit then limit else int (length (to_dict df')) + limit)) (to_dict df')"
    using p by (simp add: to_dict_def head_def take_map)
  from r m so t show ?thesis by blast
qed

lemma get_prospects_50_ranked:
  "\<exists>ranked.
     fst (get_prospects env 50 w) = Inr (take 50 ranked) \<and>
     sorted_wrt (\<lambda>p q. score_order (tier_score p) (tier_score q)) ranked \<and>
     (ranked = [] \<or> (\<exists>df. read_prospects env = Inr df \<and> mset ranked = mset (to_dict df)))"
proof (cases "prospects_try env 50")
  case (Inl e)
  then have "fst (get_prospects env 50 w) = Inr (take 50 [])"
    by (simp add: get_prospects_def)
  then show ?thesis by (intro exI [of _ "[]"]) simp
next
  case (Inr prospects)
  from prospects_try_ranked [OF Inr] obtain df ranked where
    r: "read_prospects env = Inr df" "mset ranked = mset (to_dict df)"
       "sorted_wrt (\<lambda>p q. score_order (tier_score p) (tier_score q)) ranked" and
    t: "prospects = take (nat (if (0::int) \<le> 50 then 50 else int (length ranked) + 50)) ranked"
    by blast
  from t have "prospects = take 50 ranked" by simp
  with Inr have "fst (get_prospects env 50 w) = Inr (take 50 ranked)"
    by (simp add: get_prospects_def)
  with r show ?thesis by blast
qed

text \<open>
  C10. Whenever the aggregates of the monthly report are computed, there is a ranking of
  the prospects: a list in non-increasing order of tier score (prospects without a score
  last) that holds exactly the records of the prospects file, or no record when the file
  cannot be read or sorted. \<^verbatim>\<open>get_prospects(50)\<close> returns the first 50 prospects of the
  ranking, and \<open>total_prospects\<close> is the number of prospects among these 50 that pass the
  sector filter (all of them for the filter \<open>all\<close>), so it is at most 50 whatever the
  number of matching prospects in the file.
\<close>

theorem total_prospects_at_most_50:
  "fst (monthly_data env sector w) = Inr (ctx, market_data) \<Longrightarrow>
   \<exists>ranked kept.
     fst (get_prospects env 50 w) = Inr (take 50 ranked) \<and>
     sorted_wrt (\<lambda>p q. score_order (tier_score p) (tier_score q)) ranked \<and>
     (ranked = [] \<or> (\<exists>df. read_prospects env = Inr df \<and> mset ranked = mset (to_dict df))) \<and>
     kept =
       (if sector = ''all'' then take 50 ranked
        else filter (\<lambda>item. sublist (str_lower env sector)
                       (str_lower env (str_of (get_or item ''industry'' (VStr [])))))
               (take 50 ranked)) \<and>
     get ctx ''total_prospects'' = VInt (int (length kept)) \<and>
     length kept \<le> 50"
proof -
  assume h: "fst (monthly_data env sector w) = Inr (ctx, market_data)"
  from monthly_data_steps [OF h] obtain md ps ps' where
    p: "fst (get_prospects env 50 w) = Inr ps" and
    f: "filter_data (str_lower env) sector md ps = Inr (market_data, ps')" and
    a: "aggregate_context sector ps' market_data = Inr ctx"
    by blast
  from get_prospects_50_ranked [of env w] obtain ranked where
    g: "fst (get_prospects env 50 w) = Inr (take 50 ranked)" and
    s: "sorted_wrt (\<lambda>p q. score_order (tier_score p) (tier_score q)) ranked" and
    m: "ranked = [] \<or> (\<exists>df. read_prospects env = Inr df \<and> mset ranked = mset (to_dict df))"
    by blast
  from p g have ps: "ps = take 50 ranked" by simp
  from filter_data_result [OF f] ps have k: "ps' =
       (if sector = ''all'' then take 50 ranked
        else filter (\<lambda>item. sublist (str_lower env sector)
                       (str_lower env (str_of (get_or item ''industry'' (VStr [])))))
               (take 50 ranked))"
    by simp
  have l: "length ps' \<le> 50"
  proof (cases "sector = ''all''")
    case True
    with k show ?thesis by simp
  next
    case False
    have "length (filter (\<lambda>item. sublist (str_lower env sector)
                       (str_lower env (str_of (get_or item ''industry'' (VStr [])))))
               (take 50 ranked)) \<le> length (take 50 ranked)"
      by (rule length_filter_le)
    also have "\<dots> \<le> 50" by simp
    finally show ?thesis using k False by simp
  qed
  from a have t: "get ctx ''total_prospects'' = VInt (int (length ps'))"
    by (auto simp: aggregate_context_def get_def split: sum.splits)
  from g s m k t l show ?thesis by blast
qed

theorem total_prospects_at_most_50_witness:
  "fst (monthly_data many_prospects_env ''tech'' empty_world) = Inr (tech_context, tech_market)
   \<and> length (cells many_prospects) = 85
   \<and> length (filter (\<lambda>item. sublist (ascii_lower ''tech'')
                (ascii_lower (str_of (get_or item ''industry'' (VStr [])))))
        (to_dict many_prospects)) = 55
   \<and> get tech_context ''total_prospects'' = VInt 50"
proof -
  have h: "fst (monthly_data many_prospects_env ''tech'' empty_world) =
      Inr (tech_context, tech_market)"
    by code_simp
  have l: "length (cells many_prospects) = 85"
    by (simp add: many_prospects_def)
  have f: "length (filter (\<lambda>item. sublist (ascii_lower ''tech'')
                (ascii_lower (str_of (get_or item ''industry'' (VStr [])))))
        (to_dict many_prospects)) = 55"
    by code_simp
  have g: "get tech_context ''total_prospects'' = VInt 50"
    by (simp add: tech_context_def get_def)
  from total_prospects_at_most_50 [OF h] h l f g show ?thesis by simp
qed

section \<open>One pass of the weekly loop\<close>

lemma weekly_path_not_metadata [simp]:
  "path_join (output_dir env) (weekly_filename env company_name t) \<noteq> metadata_file env"
  by (simp add: path_join_def weekly_filename_def metadata_file_def)

lemma ticks_log_info [simp]: "ticks (log_info m w) = ticks w"
  by (simp add: log_info_def)

lemma generate_report_ticks:
  "generate_report env prompt prospect_data market_context w = (r, w') \<Longrightarrow> ticks w' = ticks w"
  by (auto simp: generate_report_def Let_def log_error_def split: sum.splits)

lemma weekly_try_written:
  assumes g: "fst (generate_report env weekly_prompt prospect market_data
                (log_info (''Processing prospect '' @ show_nat i @ ''/'' @ show_nat len
                   @ '': '' @ py_str (get prospect ''company_name'')) w)) = Inr content"
    and n: "get_or prospect ''company_name'' (VStr ''Unknown'') = VStr name"
    and wr: "writable env (path_join (output_dir env)
               (weekly_filename env (replace_spaces name) (clk env (ticks w))))"
  shows "fst (snd (weekly_try env start_time market_data len i prospect (report_files, w))) =
           report_files @ [path_join (output_dir env)
               (weekly_filename env (replace_spaces name) (clk env (ticks w)))]
    \<and> fs (snd (snd (weekly_try env start_time market_data len i prospect (report_files, w))))
        (path_join (output_dir env)
               (weekly_filename env (replace_spaces name) (clk env (ticks w)))) =
        Some (''# Weekly Recruitment Report - '' @ py_str (get prospect ''company_name'')
              @ ''\<newline>\<newline>'' @ ''**Generated:** ''
              @ strftime env ''%d-%m-%Y %H:%M'' (clk env (Suc (ticks w)))
              @ ''\<newline>\<newline>'' @ content)
    \<and> (\<forall>q. q \<noteq> path_join (output_dir env)
               (weekly_filename env (replace_spaces name) (clk env (ticks w))) \<and>
           q \<noteq> metadata_file env \<longrightarrow>
         fs (snd (snd (weekly_try env start_time market_data len i prospect (report_files, w))))
           q = fs w q)"
proof -
  let ?w1 = "log_info (''Processing prospect '' @ show_nat i @ ''/'' @ show_nat len
                   @ '': '' @ py_str (get prospect ''company_name'')) w"
  obtain w2 where g2: "generate_report env weekly_prompt prospect market_data ?w1 =
      (Inr content, w2)"
    using g by (cases "generate_report env weekly_prompt prospect market_data ?w1") auto
  have f2: "fs w2 = fs w" using generate_report_fs [OF g2] by simp
  have t2: "ticks w2 = ticks w" using generate_report_ticks [OF g2] by simp
  show ?thesis
    using g2 n wr f2 t2
    by (auto simp: weekly_try_def Let_def now_def open_w_def write_file_def
      split: prod.splits sum.splits dest!: save_report_metadata_fs)
qed

lemma weekly_try_skipped:
  assumes "isl (fst (generate_report env weekly_prompt prospect market_data
                (log_info (''Processing prospect '' @ show_nat i @ ''/'' @ show_nat len
                   @ '': '' @ py_str (get prospect ''company_name'')) w)))
     \<or> \<not> is_str (get_or prospect ''company_name'' (VStr ''Unknown''))
     \<or> \<not> writable env (path_join (output_dir env)
           (weekly_filename env
              (replace_spaces (str_of (get_or prospect ''company_name'' (VStr ''Unknown''))))
              (clk env (ticks w))))"
  shows "isl (fst (weekly_try env start_time market_data len i prospect (report_files, w)))
    \<and> fst (snd (weekly_try env start_time market_data len i prospect (report_files, w))) =
        report_files
    \<and> fs (snd (snd (weekly_try env start_time market_data len i prospect (report_files, w)))) =
        fs w"
proof -
  let ?w1 = "log_info (''Processing prospect '' @ show_nat i @ ''/'' @ show_nat len
                   @ '': '' @ py_str (get prospect ''company_name'')) w"
  obtain r w2 where g2: "generate_report env weekly_prompt prospect market_data ?w1 = (r, w2)"
    by (cases "generate_report env weekly_prompt prospect market_data ?w1")
  have f2: "fs w2 = fs w" using generate_report_fs [OF g2] by simp
  have t2: "ticks w2 = ticks w" using generate_report_ticks [OF g2] by simp
  show ?thesis
  proof (cases r)
    case (Inl e)
    with g2 f2 show ?thesis by (simp add: weekly_try_def Let_def)
  next
    case (Inr content)
    show ?thesis
    proof (cases "get_or prospect ''company_name'' (VStr ''Unknown'')")
      case (VStr name)
      with assms g2 Inr have "\<not> writable env (path_join (output_dir env)
           (weekly_filename env (replace_spaces name) (clk env (ticks w))))"
        by simp
      with g2 Inr VStr f2 t2 show ?thesis
        by (simp add: weekly_try_def Let_def now_def open_w_def)
    qed (use g2 Inr f2 in \<open>simp_all add: weekly_try_def Let_def\<close>)
  qed
qed

lemma weekly_iteration_state:
  "fst (snd (weekly_iteration env start_time market_data len i prospect st)) =
     fst (snd (weekly_try env start_time market_data len i prospect st))
   \<and> fs (snd (snd (weekly_iteration env start_time market_data len i prospect st))) =
     fs (snd (snd (weekly_try env start_time market_data len i prospect st)))"
  by (simp add: weekly_iteration_def split: prod.splits sum.splits)

lemma weekly_iteration_error_logged:
  assumes "isl (fst (weekly_try env start_time market_data len i prospect st))"
  shows "\<exists>m. last (log (snd (snd (weekly_iteration env start_time market_data len i prospect
           st)))) = (ERROR, m)"
  using assms
  by (auto simp: weekly_iteration_def log_error_def split: prod.splits sum.splits)

text \<open>A pass leaves the list and the files alone, or appends the path of a report file
  it has written in full.\<close>

lemma weekly_iteration_report:
  "(fst (snd (weekly_iteration env start_time market_data len i prospect (report_files, w))) =
      report_files \<and>
    fs (snd (snd (weekly_iteration env start_time market_data len i prospect
      (report_files, w)))) = fs w)
   \<or> (\<exists>path body.
      fst (snd (weekly_iteration env start_time market_data len i prospect (report_files, w))) =
        report_files @ [path] \<and>
      path \<noteq> metadata_file env \<and>
      fs (snd (snd (weekly_iteration env start_time market_data len i prospect
        (report_files, w)))) path = Some (''# Weekly Recruitment Report - '' @ body) \<and>
      (\<forall>q. q \<noteq> path \<and> q \<noteq> metadata_file env \<longrightarrow>
        fs (snd (snd (weekly_iteration env start_time market_data len i prospect
          (report_files, w)))) q = fs w q))"
proof -
  let ?g = "fst (generate_report env weekly_prompt prospect market_data
                (log_info (''Processing prospect '' @ show_nat i @ ''/'' @ show_nat len
                   @ '': '' @ py_str (get prospect ''company_name'')) w))"
  let ?c = "get_or prospect ''company_name'' (VStr ''Unknown'')"
  let ?p = "path_join (output_dir env)
           (weekly_filename env (replace_spaces (str_of ?c)) (clk env (ticks w)))"
  show ?thesis
  proof (cases "isl ?g \<or> \<not> is_str ?c \<or> \<not> writable env ?p")
    case True
    from weekly_try_skipped [OF True, of start_time report_files]
    show ?thesis by (simp add: weekly_iteration_state)
  next
    case False
    then obtain content where g: "?g = Inr content" by (cases ?g) auto
    from False obtain name where n: "?c = VStr name" by (cases ?c) auto
    from False n have wr: "writable env (path_join (output_dir env)
               (weekly_filename env (replace_spaces name) (clk env (ticks w))))"
      by simp
    let ?path = "path_join (output_dir env)
               (weekly_filename env (replace_spaces name) (clk env (ticks w)))"
    from weekly_try_written [OF g n wr, of start_time report_files]
    have "fst (snd (weekly_iteration env start_time market_data len i prospect
             (report_files, w))) = report_files @ [?path] \<and>
          ?path \<noteq> metadata_file env \<and>
          fs (snd (snd (weekly_iteration env start_time market_data len i prospect
             (report_files, w)))) ?path =
            Some (''# Weekly Recruitment Report - '' @
              (py_str (get prospect ''company_name'')
               @ ''\<newline>\<newline>'' @ ''**Generated:** ''
               @ strftime env ''%d-%m-%Y %H:%M'' (clk env (Suc (ticks w)))
               @ ''\<newline>\<newline>'' @ content)) \<and>
          (\<forall>q. q \<noteq> ?path \<and> q \<noteq> metadata_file env \<longrightarrow>
            fs (snd (snd (weekly_iteration env start_time market_data len i prospect
              (report_files, w)))) q = fs w q)"
      by (simp add: weekly_iteration_state)
    then show ?thesis by blast
  qed
qed

lemma weekly_loop_reports:
  assumes "\<forall>p\<in>set report_files. p \<noteq> metadata_file env \<and>
             (\<exists>body. fs w p = Some (''# Weekly Recruitment Report - '' @ body))"
  shows "\<exists>new.
     fst (snd (weekly_loop env start_time market_data len prospects (report_files, w))) =
       report_files @ new \<and>
     (\<forall>p\<in>set (report_files @ new). p \<noteq> metadata_file env \<and>
        (\<exists>body.
          fs (snd (snd (weekly_loop env start_time market_data len prospects (report_files, w))))
            p = Some (''# Weekly Recruitment Report - '' @ body))) \<and>
     (\<forall>q. q \<notin> set new \<and> q \<noteq> metadata_file env \<longrightarrow>
        fs (snd (snd (weekly_loop env start_time market_data len prospects (report_files, w))))
          q = fs w q)"
  using assms
proof (induction prospects arbitrary: report_files w)
  case Nil
  then show ?case by (intro exI [of _ "[]"]) simp
next
  case (Cons ip rest)
  obtain i prospect where ip: "ip = (i, prospect)" by (cases ip)
  obtain files1 w1 where
    s: "weekly_iteration env start_time market_data len i prospect (report_files, w) =
          (Inr (), (files1, w1))"
    using weekly_iteration_returns [of env start_time market_data len i prospect
      "(report_files, w)"]
    by (cases "weekly_iteration env start_time market_data len i prospect (report_files, w)")
      auto
  let ?end = "weekly_loop env start_time market_data len rest (files1, w1)"
  have l: "weekly_loop env start_time market_data len (ip # rest) (report_files, w) = ?end"
    using s ip by simp
  from weekly_iteration_report [of env start_time market_data len i prospect report_files w]
  have "(files1 = report_files \<and> fs w1 = fs w)
     \<or> (\<exists>path body. files1 = report_files @ [path] \<and> path \<noteq> metadata_file env \<and>
          fs w1 path = Some (''# Weekly Recruitment Report - '' @ body) \<and>
          (\<forall>q. q \<noteq> path \<and> q \<noteq> metadata_file env \<longrightarrow> fs w1 q = fs w q))"
    unfolding s by simp
  then show ?case
  proof
    assume a: "files1 = report_files \<and> fs w1 = fs w"
    with Cons.prems have inv: "\<forall>p\<in>set files1. p \<noteq> metadata_file env \<and>
             (\<exists>body. fs w1 p = Some (''# Weekly Recruitment Report - '' @ body))"
      by simp
    from Cons.IH [OF inv] obtain new where
      n1: "fst (snd ?end) = files1 @ new" and
      n2: "\<forall>p\<in>set (files1 @ new). p \<noteq> metadata_file env \<and>
             (\<exists>body. fs (snd (snd ?end)) p = Some (''# Weekly Recruitment Report - '' @ body))" and
      n3: "\<forall>q. q \<notin> set new \<and> q \<noteq> metadata_file env \<longrightarrow> fs (snd (snd ?end)) q = fs w1 q"
      by blast
    show ?thesis unfolding l
      by (rule exI [of _ new]) (use a n1 n2 n3 in simp)
  next
    assume "\<exists>path body. files1 = report_files @ [path] \<and> path \<noteq> metadata_file env \<and>
          fs w1 path = Some (''# Weekly Recruitment Report - '' @ body) \<and>
          (\<forall>q. q \<noteq> path \<and> q \<noteq> metadata_file env \<longrightarrow> fs w1 q = fs w q)"
    then obtain path body where
      b1: "files1 = report_files @ [path]" and
      b2: "path \<noteq> metadata_file env" and
      b3: "fs w1 path = Some (''# Weekly Recruitment Report - '' @ body)" and
      b4: "\<forall>q. q \<noteq> path \<and> q \<noteq> metadata_file env \<longrightarrow> fs w1 q = fs w q"
      by blast
    have inv: "\<forall>p\<in>set files1. p \<noteq> metadata_file env \<and>
             (\<exists>body. fs w1 p = Some (''# Weekly Recruitment Report - '' @ body))"
    proof
      fix p
      assume "p \<in> set files1"
      with b1 have "p = path \<or> p \<in> set report_files" by auto
      then show "p \<noteq> metadata_file env \<and>
             (\<exists>body. fs w1 p = Some (''# Weekly Recruitment Report - '' @ body))"
      proof
        assume "p = path"
        with b2 b3 show ?thesis by simp
      next
        assume m: "p \<in> set report_files"
        with Cons.prems have o: "p \<noteq> metadata_file env"
          "\<exists>body. fs w p = Some (''# Weekly Recruitment Report - '' @ body)"
          by simp_all
        show ?thesis
        proof (cases "p = path")
          case True
          with b2 b3 show ?thesis by simp
        next
          case False
          with o b4 show ?thesis by simp
        qed
      qed
    qed
    from Cons.IH [OF inv] obtain new where
      n1: "fst (snd ?end) = files1 @ new" and
      n2: "\<forall>p\<in>set (files1 @ new). p \<noteq> metadata_file env \<and>
             (\<exists>body. fs (snd (snd ?end)) p = Some (''# Weekly Recruitment Report - '' @ body))" and
      n3: "\<forall>q. q \<notin> set new \<and> q \<noteq> metadata_file env \<longrightarrow> fs (snd (snd ?end)) q = fs w1 q"
      by blast
    show ?thesis unfolding l
    proof (rule exI [of _ "path # new"], intro conjI)
      show "fst (snd ?end) = report_files @ path # new" using n1 b1 by simp
      show "\<forall>p\<in>set (report_files @ path # new). p \<noteq> metadata_file env \<and>
             (\<exists>body. fs (snd (snd ?end)) p = Some (''# Weekly Recruitment Report - '' @ body))"
        using n2 b1 by simp
      show "\<forall>q. q \<notin> set (path # new) \<and> q \<noteq> metadata_file env \<longrightarrow>
          fs (snd (snd ?end)) q = fs w q"
        using n3 b4 by simp
    qed
  qed
qed

section \<open>The weekly batch as a whole\<close>

lemma generate_weekly_reports_batch:
  "\<exists>prospects w2 market_data w3 report_files w4.
     get_prospects env prospects_count
       (log_info (''Generating weekly reports for top '' @ show_int prospects_count
          @ '' prospects'') (snd (now env w))) = (Inr prospects, w2) \<and>
     get_market_data env w2 = (Inr market_data, w3) \<and>
     map snd (enumerate1 prospects) = prospects \<and>
     foldl (\<lambda>st ip. snd (weekly_iteration env (clk env (ticks w)) market_data (length prospects)
              (fst ip) (snd ip) st)) ([], w3) (enumerate1 prospects) = (report_files, w4) \<and>
     generate_weekly_reports env prospects_count w =
       (Inr report_files,
        log_info (''Generated '' @ show_nat (length report_files) @ '' reports in ''
          @ total_seconds_2f env (clk env (ticks w)) (clk env (ticks w4)) @ '' seconds'')
          (snd (now env w4))) \<and>
     list_all (\<lambda>p. \<exists>body. fs w4 p = Some (''# Weekly Recruitment Report - '' @ body))
       report_files \<and>
     (\<forall>q. fs w4 q \<noteq> fs w q \<longrightarrow> q \<in> set report_files \<or> q = metadata_file env)"
proof -
  have n: "now env w = (clk env (ticks w), snd (now env w))"
    by (simp add: now_def)
  let ?w1 = "log_info (''Generating weekly reports for top '' @ show_int prospects_count
                   @ '' prospects'') (snd (now env w))"
  obtain prospects w2 where
    p: "get_prospects env prospects_count ?w1 = (Inr prospects, w2)" and f2: "fs w2 = fs ?w1"
    using get_prospects_fs by blast
  obtain market_data w3 where
    m: "get_market_data env w2 = (Inr market_data, w3)" and f3: "fs w3 = fs w2"
    using get_market_data_fs by blast
  have w3: "fs w3 = fs w" using f2 f3 by simp
  let ?loop = "weekly_loop env (clk env (ticks w)) market_data (length prospects)
                 (enumerate1 prospects) ([], w3)"
  define final where "final =
    foldl (\<lambda>st ip. snd (weekly_iteration env (clk env (ticks w)) market_data (length prospects)
             (fst ip) (snd ip) st)) ([], w3) (enumerate1 prospects)"
  obtain report_files w4 where fin: "final = (report_files, w4)" by (cases final)
  have l: "?loop = (Inr (), (report_files, w4))"
    using fin by (simp add: final_def weekly_loop_fold)
  have n4: "now env w4 = (clk env (ticks w4), snd (now env w4))"
    by (simp add: now_def)
  have r: "generate_weekly_reports env prospects_count w =
       (Inr report_files,
        log_info (''Generated '' @ show_nat (length report_files) @ '' reports in ''
          @ total_seconds_2f env (clk env (ticks w)) (clk env (ticks w4)) @ '' seconds'')
          (snd (now env w4)))"
    unfolding generate_weekly_reports_def
    by (subst n, simp only: prod.case Let_def p m l sum.case, subst n4, simp)
  have "\<forall>p\<in>set ([]::string list). p \<noteq> metadata_file env \<and>
      (\<exists>body. fs w3 p = Some (''# Weekly Recruitment Report - '' @ body))"
    by simp
  from weekly_loop_reports [OF this, of "clk env (ticks w)" market_data "length prospects"
    "enumerate1 prospects"]
  obtain new where
    k1: "fst (snd ?loop) = [] @ new" and
    k2: "\<forall>p\<in>set ([] @ new). p \<noteq> metadata_file env \<and>
           (\<exists>body. fs (snd (snd ?loop)) p = Some (''# Weekly Recruitment Report - '' @ body))" and
    k3: "\<forall>q. q \<notin> set new \<and> q \<noteq> metadata_file env \<longrightarrow> fs (snd (snd ?loop)) q = fs w3 q"
    by blast
  from k1 have nw: "new = report_files" unfolding l by simp
  have c: "list_all (\<lambda>p. \<exists>body. fs w4 p = Some (''# Weekly Recruitment Report - '' @ body))
       report_files"
    using k2 unfolding l nw by (simp add: list_all_iff)
  have d: "\<forall>q. fs w4 q \<noteq> fs w q \<longrightarrow> q \<in> set report_files \<or> q = metadata_file env"
    using k3 unfolding l nw w3 by auto
  from p m enumerate1_snd [of prospects] fin r c d show ?thesis
    unfolding final_def by blast
qed

text \<open>
  C2. The weekly batch never raises, and it is the fold of one pass over the prospects
  that \<^verbatim>\<open>get_prospects\<close> returned, in the order of that list, started with no path: it
  returns the list of paths that fold leaves, every returned path names a report file,
  and every file the batch has changed is a returned path or the analytics file. A pass
  never raises; when its \<^verbatim>\<open>try\<close> raises, it adds an ERROR entry with the error's message
  to the log, keeps the list of paths, and the fold goes on with the next prospect. When
  the client returns a text, the company name is a string and the report file can be
  opened, the pass writes the heading, the date and the text to the report file, appends
  its path to the list and changes no other file than the analytics file. Otherwise the
  pass leaves the list and every file as they were and ends with an ERROR entry in the
  log.
\<close>

theorem weekly_batch_skips_failures:
  "(\<exists>prospects w2 market_data w3 report_files w4.
      get_prospects env prospects_count
        (log_info (''Generating weekly reports for top '' @ show_int prospects_count
           @ '' prospects'') (snd (now env w))) = (Inr prospects, w2) \<and>
      get_market_data env w2 = (Inr market_data, w3) \<and>
      map snd (enumerate1 prospects) = prospects \<and>
      foldl (\<lambda>st ip. snd (weekly_iteration env (clk env (ticks w)) market_data (length prospects)
               (fst ip) (snd ip) st)) ([], w3) (enumerate1 prospects) = (report_files, w4) \<and>
      generate_weekly_reports env prospects_count w =
        (Inr report_files,
         log_info (''Generated '' @ show_nat (length report_files) @ '' reports in ''
           @ total_seconds_2f env (clk env (ticks w)) (clk env (ticks w4)) @ '' seconds'')
           (snd (now env w4))) \<and>
      list_all (\<lambda>p. \<exists>body. fs w4 p = Some (''# Weekly Recruitment Report - '' @ body))
        report_files \<and>
      (\<forall>q. fs w4 q \<noteq> fs w q \<longrightarrow> q \<in> set report_files \<or> q = metadata_file env))
   \<and> fst (weekly_iteration env start_time rows len i prospect st) = Inr ()
   \<and> (weekly_try env start_time rows len i prospect st = (Inl e, (kept, w1)) \<longrightarrow>
       weekly_iteration env start_time rows len i prospect st =
         (Inr (), (kept,
            w1\<lparr>log := log w1 @ [(ERROR, ''Error processing prospect ''
                   @ py_str (get prospect ''company_name'') @ '': '' @ exc_msg e)]\<rparr>)))
   \<and> (fst (generate_report env weekly_prompt prospect rows
              (log_info (''Processing prospect '' @ show_nat i @ ''/'' @ show_nat len
                 @ '': '' @ py_str (get prospect ''company_name'')) v)) = Inr content \<and>
       get_or prospect ''company_name'' (VStr ''Unknown'') = VStr name \<and>
       writable env (path_join (output_dir env)
         (weekly_filename env (replace_spaces name) (clk env (ticks v)))) \<longrightarrow>
       fst (snd (weekly_iteration env start_time rows len i prospect (files, v))) =
         files @ [path_join (output_dir env)
                    (weekly_filename env (replace_spaces name) (clk env (ticks v)))] \<and>
       fs (snd (snd (weekly_iteration env start_time rows len i prospect (files, v))))
         (path_join (output_dir env)
            (weekly_filename env (replace_spaces name) (clk env (ticks v)))) =
         Some (''# Weekly Recruitment Report - '' @ py_str (get prospect ''company_name'')
               @ ''\<newline>\<newline>'' @ ''**Generated:** ''
               @ strftime env ''%d-%m-%Y %H:%M'' (clk env (Suc (ticks v)))
               @ ''\<newline>\<newline>'' @ content) \<and>
       (\<forall>q. q \<noteq> path_join (output_dir env)
                 (weekly_filename env (replace_spaces name) (clk env (ticks v))) \<and>
            q \<noteq> metadata_file env \<longrightarrow>
          fs (snd (snd (weekly_iteration env start_time rows len i prospect (files, v)))) q =
            fs v q))
   \<and> (isl (fst (generate_report env weekly_prompt prospect rows
                  (log_info (''Processing prospect '' @ show_nat i @ ''/'' @ show_nat len
                     @ '': '' @ py_str (get prospect ''company_name'')) v)))
       \<or> \<not> is_str (get_or prospect ''company_name'' (VStr ''Unknown''))
       \<or> \<not> writable env (path_join (output_dir env)
             (weekly_filename env
                (replace_spaces (str_of (get_or prospect ''company_name'' (VStr ''Unknown''))))
                (clk env (ticks v)))) \<longrightarrow>
       fst (snd (weekly_iteration env start_time rows len i prospect (files, v))) = files \<and>
       fs (snd (snd (weekly_iteration env start_time rows len i prospect (files, v)))) = fs v \<and>
       (\<exists>m. last (log (snd (snd (weekly_iteration env start_time rows len i prospect
               (files, v))))) = (ERROR, m)))"
proof -
  have handler: "weekly_iteration env start_time rows len i prospect st =
         (Inr (), (kept,
            w1\<lparr>log := log w1 @ [(ERROR, ''Error processing prospect ''
                   @ py_str (get prospect ''company_name'') @ '': '' @ exc_msg e)]\<rparr>))"
    if "weekly_try env start_time rows len i prospect st = (Inl e, (kept, w1))"
    using weekly_iteration_handler [OF that] by (simp add: log_error_def)
  have written: "fst (snd (weekly_iteration env start_time rows len i prospect (files, v))) =
         files @ [path_join (output_dir env)
                    (weekly_filename env (replace_spaces name) (clk env (ticks v)))] \<and>
       fs (snd (snd (weekly_iteration env start_time rows len i prospect (files, v))))
         (path_join (output_dir env)
            (weekly_filename env (replace_spaces name) (clk env (ticks v)))) =
         Some (''# Weekly Recruitment Report - '' @ py_str (get prospect ''company_name'')
               @ ''\<newline>\<newline>'' @ ''**Generated:** ''
               @ strftime env ''%d-%m-%Y %H:%M'' (clk env (Suc (ticks v)))
               @ ''\<newline>\<newline>'' @ content) \<and>
       (\<forall>q. q \<noteq> path_join (output_dir env)
                 (weekly_filename env (replace_spaces name) (clk env (ticks v))) \<and>
            q \<noteq> metadata_file env \<longrightarrow>
          fs (snd (snd (weekly_iteration env start_time rows len i prospect (files, v)))) q =
            fs v q)"
    if h: "fst (generate_report env weekly_prompt prospect rows
              (log_info (''Processing prospect '' @ show_nat i @ ''/'' @ show_nat len
                 @ '': '' @ py_str (get prospect ''company_name'')) v)) = Inr content \<and>
       get_or prospect ''company_name'' (VStr ''Unknown'') = VStr name \<and>
       writable env (path_join (output_dir env)
         (weekly_filename env (replace_spaces name) (clk env (ticks v))))"
  proof -
    from h have
      g: "fst (generate_report env weekly_prompt prospect rows
              (log_info (''Processing prospect '' @ show_nat i @ ''/'' @ show_nat len
                 @ '': '' @ py_str (get prospect ''company_name'')) v)) = Inr content" and
      n: "get_or prospect ''company_name'' (VStr ''Unknown'') = VStr name" and
      wr: "writable env (path_join (output_dir env)
         (weekly_filename env (replace_spaces name) (clk env (ticks v))))"
      by simp_all
    from weekly_try_written [OF g n wr, of start_time files]
    show ?thesis by (simp add: weekly_iteration_state)
  qed
  have skipped: "fst (snd (weekly_iteration env start_time rows len i prospect (files, v))) =
         files \<and>
       fs (snd (snd (weekly_iteration env start_time rows len i prospect (files, v)))) = fs v \<and>
       (\<exists>m. last (log (snd (snd (weekly_iteration env start_time rows len i prospect
               (files, v))))) = (ERROR, m))"
    if h: "isl (fst (generate_report env weekly_prompt prospect rows
                  (log_info (''Processing prospect '' @ show_nat i @ ''/'' @ show_nat len
                     @ '': '' @ py_str (get prospect ''company_name'')) v)))
       \<or> \<not> is_str (get_or prospect ''company_name'' (VStr ''Unknown''))
       \<or> \<not> writable env (path_join (output_dir env)
             (weekly_filename env
                (replace_spaces (str_of (get_or prospect ''company_name'' (VStr ''Unknown''))))
                (clk env (ticks v))))"
  proof -
    from weekly_try_skipped [OF h, of start_time files] have
      r: "isl (fst (weekly_try env start_time rows len i prospect (files, v)))" and
      k: "fst (snd (weekly_try env start_time rows len i prospect (files, v))) = files" and
      f: "fs (snd (snd (weekly_try env start_time rows len i prospect (files, v)))) = fs v"
      by simp_all
    from weekly_iteration_error_logged [OF r] k f show ?thesis
      by (simp add: weekly_iteration_state)
  qed
  show ?thesis
    using generate_weekly_reports_batch [of env prospects_count w]
      weekly_iteration_returns [of env start_time rows len i prospect st]
      handler written skipped
    by (intro conjI impI) blast+
qed

theorem weekly_batch_skips_failures_witness:
  "fst (generate_weekly_reports blank_name_env 2 empty_world) = Inr [c_path]
   \<and> weekly_try blank_name_env 0 [] 2 1 blank_name_row ([], empty_world) =
       (Inl attribute_error, ([], failed_try_world))
   \<and> weekly_iteration blank_name_env 0 [] 2 1 blank_name_row ([], empty_world) =
       (Inr (), ([],
          failed_try_world\<lparr>log := log failed_try_world @
            [(ERROR, ''Error processing prospect nan: '' @ exc_msg attribute_error)]\<rparr>))
   \<and> \<not> is_str (get_or blank_name_row ''company_name'' (VStr ''Unknown''))
   \<and> fs (snd (snd (weekly_iteration blank_name_env 0 [] 2 1 blank_name_row ([], empty_world)))) =
       fs empty_world
   \<and> fst (generate_report blank_name_env weekly_prompt c_row []
            (log_info (''Processing prospect '' @ show_nat 2 @ ''/'' @ show_nat 2
               @ '': '' @ py_str (get c_row ''company_name'')) empty_world)) = Inr ''report''
   \<and> get_or c_row ''company_name'' (VStr ''Unknown'') = VStr ''C''
   \<and> writable blank_name_env (path_join (output_dir blank_name_env)
         (weekly_filename blank_name_env (replace_spaces ''C'')
            (clk blank_name_env (ticks empty_world))))
   \<and> fst (snd (weekly_iteration blank_name_env 0 [] 2 2 c_row ([], empty_world))) = [c_path]
   \<and> fs (snd (snd (weekly_iteration blank_name_env 0 [] 2 2 c_row ([], empty_world)))) c_path =
       Some ''# Weekly Recruitment Report - C\<newline>\<newline>**Generated:** D\<newline>\<newline>report''"
proof -
  have a: "fst (generate_weekly_reports blank_name_env 2 empty_world) = Inr [c_path]"
    by (simp add: run_simps blank_name_env_fields blank_name_prospects_def no_market_def
      c_path_def)
  have c: "weekly_try blank_name_env 0 [] 2 1 blank_name_row ([], empty_world) =
       (Inl attribute_error, ([], failed_try_world))"
    by (simp add: run_simps blank_name_env_fields blank_name_row_def attribute_error_def
      failed_try_world_def)
  have n: "py_str (get blank_name_row ''company_name'') = ''nan''"
    by (simp add: get_def blank_name_row_def)
  have s: "\<not> is_str (get_or blank_name_row ''company_name'' (VStr ''Unknown''))"
    by (simp add: get_or_def blank_name_row_def)
  note first = weekly_batch_skips_failures [where env = blank_name_env and prospects_count = 2
    and w = empty_world and start_time = 0 and rows = "[]" and len = 2 and i = 1
    and prospect = blank_name_row and st = "([], empty_world)" and e = attribute_error
    and kept = "[]" and ?w1.0 = failed_try_world and files = "[]" and v = empty_world]
  from first c have "weekly_iteration blank_name_env 0 [] 2 1 blank_name_row ([], empty_world) =
         (Inr (), ([],
            failed_try_world\<lparr>log := log failed_try_world @ [(ERROR, ''Error processing prospect ''
                   @ py_str (get blank_name_row ''company_name'') @ '': ''
                   @ exc_msg attribute_error)]\<rparr>))"
    by blast
  then have d: "weekly_iteration blank_name_env 0 [] 2 1 blank_name_row ([], empty_world) =
       (Inr (), ([],
          failed_try_world\<lparr>log := log failed_try_world @
            [(ERROR, ''Error processing prospect nan: '' @ exc_msg attribute_error)]\<rparr>))"
    by (simp add: n)
  from first s have k: "fs (snd (snd (weekly_iteration blank_name_env 0 [] 2 1 blank_name_row
      ([], empty_world)))) = fs empty_world"
    by blast
  have g: "fst (generate_report blank_name_env weekly_prompt c_row []
            (log_info (''Processing prospect '' @ show_nat 2 @ ''/'' @ show_nat 2
               @ '': '' @ py_str (get c_row ''company_name'')) empty_world)) = Inr ''report''"
    by (simp add: generate_report_def build_context_def prospect_block_def
      blank_name_env_fields c_row_def get_or_def get_def show_simps Let_def)
  have m: "get_or c_row ''company_name'' (VStr ''Unknown'') = VStr ''C''"
    by (simp add: get_or_def c_row_def)
  have wr: "writable blank_name_env (path_join (output_dir blank_name_env)
         (weekly_filename blank_name_env (replace_spaces ''C'')
            (clk blank_name_env (ticks empty_world))))"
    by (simp add: blank_name_env_fields)
  note second = weekly_batch_skips_failures [where env = blank_name_env and start_time = 0
    and rows = "[]" and len = 2 and i = 2 and prospect = c_row and files = "[]"
    and v = empty_world and content = "''report''" and name = "''C''"]
  from second g m wr have
    "fst (snd (weekly_iteration blank_name_env 0 [] 2 2 c_row ([], empty_world))) =
         [] @ [path_join (output_dir blank_name_env)
                    (weekly_filename blank_name_env (replace_spaces ''C'')
                       (clk blank_name_env (ticks empty_world)))] \<and>
       fs (snd (snd (weekly_iteration blank_name_env 0 [] 2 2 c_row ([], empty_world))))
         (path_join (output_dir blank_name_env)
            (weekly_filename blank_name_env (replace_spaces ''C'')
               (clk blank_name_env (ticks empty_world)))) =
         Some (''# Weekly Recruitment Report - '' @ py_str (get c_row ''company_name'')
               @ ''\<newline>\<newline>'' @ ''**Generated:** ''
               @ strftime blank_name_env ''%d-%m-%Y %H:%M''
                   (clk blank_name_env (Suc (ticks empty_world)))
               @ ''\<newline>\<newline>'' @ ''report'')"
    by blast
  moreover have "path_join (output_dir blank_name_env)
            (weekly_filename blank_name_env (replace_spaces ''C'')
               (clk blank_name_env (ticks empty_world))) = c_path"
    by (simp add: blank_name_env_fields path_join_def weekly_filename_def replace_spaces_def
      c_path_def)
  moreover have "py_str (get c_row ''company_name'') = ''C''"
    by (simp add: get_def c_row_def)
  ultimately have b: "fst (snd (weekly_iteration blank_name_env 0 [] 2 2 c_row
        ([], empty_world))) = [c_path] \<and>
      fs (snd (snd (weekly_iteration blank_name_env 0 [] 2 2 c_row ([], empty_world)))) c_path =
       Some ''# Weekly Recruitment Report - C\<newline>\<newline>**Generated:** D\<newline>\<newline>report''"
    by (simp add: blank_name_env_fields)
  from a c d s k g m wr b show ?thesis by (simp only: simp_thms)
qed

end
